theory Spec2Isabelle
  imports Main
begin

section \<open>Python values stored in a checkpoint\<close>

text \<open>
  The notebook \<^verbatim>\<open>6_Saving_and_Loading_Models.ipynb\<close> saves and loads the parameters of a
  fully connected network. A tensor is a shape, the type of its elements (\<^verbatim>\<open>torch.float32\<close>,
  the default, or \<^verbatim>\<open>torch.float64\<close>) and the elements. What an element is stays open: the
  routines below only copy elements or hand them to the conversion between the two types.
\<close>

datatype dtype = Float32 | Float64

datatype 'a tensor = Tensor (shape: "nat list") (dtype: dtype) (data: "'a list")

text \<open>
  What \<^verbatim>\<open>torch.save\<close> pickles in the notebook: integers, lists of integers, tensors, and
  dictionaries with string keys (a \<^verbatim>\<open>dict\<close> or the \<^verbatim>\<open>OrderedDict\<close> of a state dict, both
  in insertion order; the keys of a Python dictionary are distinct).
\<close>

datatype 'a pyobj =
    PyInt int
  | PyList "int list"
  | PyTensor "'a tensor"
  | PyDict "(string \<times> 'a pyobj) list"

text \<open>
  The lines of the message of the \<^verbatim>\<open>RuntimeError\<close> that \<^verbatim>\<open>load_state_dict\<close> raises (cell 17
  of the notebook prints seven \<^verbatim>\<open>size mismatch\<close> lines), and the exceptions of the model.
\<close>

datatype msg =
    MissingKeys "string list"
  | UnexpectedKeys "string list"
  | SizeMismatch string "nat list" "nat list"
  | NotTensor string
  | NegativeDimension

fun is_size_mismatch :: "msg \<Rightarrow> bool" where
  "is_size_mismatch (SizeMismatch key s1 s2) = True"
| "is_size_mismatch _ = False"

datatype error =
    KeyError string
  | IndexError
  | TypeError
  | NameError string
  | FileNotFoundError string
  | RuntimeError "msg list"

fun class_name :: "error \<Rightarrow> string" where
  "class_name (KeyError k) = ''KeyError''"
| "class_name IndexError = ''IndexError''"
| "class_name TypeError = ''TypeError''"
| "class_name (NameError n) = ''NameError''"
| "class_name (FileNotFoundError p) = ''FileNotFoundError''"
| "class_name (RuntimeError ms) = ''RuntimeError''"

text \<open>
  \<^verbatim>\<open>obj[key]\<close> with a string key: a dictionary raises \<^verbatim>\<open>KeyError\<close> for an absent key, a
  tensor raises \<^verbatim>\<open>IndexError\<close>, an integer or a list raises \<^verbatim>\<open>TypeError\<close>.
\<close>

fun subscript :: "'a pyobj \<Rightarrow> string \<Rightarrow> error + 'a pyobj" where
  "subscript (PyDict kvs) key =
     (case map_of kvs key of None \<Rightarrow> Inl (KeyError key) | Some v \<Rightarrow> Inr v)"
| "subscript (PyTensor t) key = Inl IndexError"
| "subscript (PyInt i) key = Inl TypeError"
| "subscript (PyList xs) key = Inl TypeError"

section \<open>The network\<close>

text \<open>
  Cell 13 prints the model: a \<^verbatim>\<open>ModuleList\<close> named \<^verbatim>\<open>hidden_layers\<close> of \<^verbatim>\<open>Linear\<close> modules,
  a \<^verbatim>\<open>Linear\<close> named \<^verbatim>\<open>output\<close> and a \<^verbatim>\<open>Dropout\<close> named \<^verbatim>\<open>dropout\<close>, which has no
  parameter and is therefore only a name below.
\<close>

record 'a Linear =
  in_features :: nat
  out_features :: nat
  weight :: "'a tensor"
  bias :: "'a tensor"

record 'a Network =
  hidden_layers :: "'a Linear list"
  "output" :: "'a Linear"

text \<open>
  \<^verbatim>\<open>nn.Linear(in_features, out_features)\<close>: the weight has shape \<^verbatim>\<open>[out_features, in_features]\<close>,
  the bias \<^verbatim>\<open>[out_features]\<close>, both of the default type \<^verbatim>\<open>torch.float32\<close>. The random
  initial values are the parameter \<open>init\<close>, a function of the shape.
\<close>

definition Linear_new :: "(nat list \<Rightarrow> 'a list) \<Rightarrow> nat \<Rightarrow> nat \<Rightarrow> 'a Linear" where
  "Linear_new init n_in n_out =
     \<lparr>in_features = n_in, out_features = n_out,
      weight = Tensor [n_out, n_in] Float32 (init [n_out, n_in]),
      bias = Tensor [n_out] Float32 (init [n_out])\<rparr>"

text \<open>
  Modelled from the spec: the class \<^verbatim>\<open>fc_model.Network\<close>, whose file \<^verbatim>\<open>fc_model.py\<close> is not
  among the sources. The data model of the spec gives the topology: hidden layer \<open>i\<close> maps
  \<open>hidden_layer_sizes[i-1]\<close> (or \<open>input_size\<close> for the first) to \<open>hidden_layer_sizes[i]\<close>, the
  output layer maps \<open>hidden_layer_sizes[-1]\<close> to \<open>output_size\<close>, and the sequence of hidden
  sizes must be non-empty.
\<close>

definition Network_init ::
  "(nat list \<Rightarrow> 'a list) \<Rightarrow> nat \<Rightarrow> nat \<Rightarrow> nat list \<Rightarrow> error + 'a Network" where
  "Network_init init input_size output_size hs =
     (if hs = [] then Inl IndexError
      else Inr \<lparr>hidden_layers =
                  map (\<lambda>i. Linear_new init (if i = 0 then input_size else hs ! (i - 1)) (hs ! i))
                    [0..<length hs],
                output = Linear_new init (last hs) output_size\<rparr>)"

text \<open>
  The call \<^verbatim>\<open>fc_model.Network(a, b, c)\<close> on unpickled values: sizes are integers and the
  hidden sizes a list of integers (anything else is a \<^verbatim>\<open>TypeError\<close> here); torch refuses a
  negative dimension with a \<^verbatim>\<open>RuntimeError\<close>.
\<close>

fun Network_new ::
  "(nat list \<Rightarrow> 'a list) \<Rightarrow> 'a pyobj \<Rightarrow> 'a pyobj \<Rightarrow> 'a pyobj \<Rightarrow> error + 'a Network" where
  "Network_new init (PyInt a) (PyInt b) (PyList hs) =
     (if hs = [] then Inl IndexError
      else if a < 0 \<or> b < 0 \<or> list_ex (\<lambda>h. h < 0) hs then Inl (RuntimeError [NegativeDimension])
      else Network_init init (nat a) (nat b) (map nat hs))"
| "Network_new init a b c = Inl TypeError"

section \<open>The state dict\<close>

text \<open>\<^verbatim>\<open>str(i)\<close> for a natural number: the names of the children of a \<^verbatim>\<open>ModuleList\<close>.\<close>

definition digit :: "nat \<Rightarrow> char" where
  "digit n = ''0123456789'' ! n"

function str :: "nat \<Rightarrow> string" where
  "str n = (if n < 10 then [digit n] else str (n div 10) @ [digit (n mod 10)])"
  by pat_completeness auto
termination
  by (relation "measure id") auto

declare str.simps [simp del]

definition hidden_prefix :: "nat \<Rightarrow> string" where
  "hidden_prefix i = ''hidden_layers.'' @ str i @ ''.''"

definition linear_items :: "string \<Rightarrow> 'a Linear \<Rightarrow> (string \<times> 'a tensor) list" where
  "linear_items prefix l = [(prefix @ ''weight'', weight l), (prefix @ ''bias'', bias l)]"

text \<open>
  \<^verbatim>\<open>model.state_dict()\<close>: cell 13 prints its keys in this order,
  \<^verbatim>\<open>hidden_layers.0.weight\<close>, \<^verbatim>\<open>hidden_layers.0.bias\<close>, ..., \<^verbatim>\<open>output.weight\<close>, \<^verbatim>\<open>output.bias\<close>.
\<close>

definition state_dict :: "'a Network \<Rightarrow> (string \<times> 'a tensor) list" where
  "state_dict model =
     concat (map (\<lambda>(i, l). linear_items (hidden_prefix i) l) (enumerate 0 (hidden_layers model)))
     @ linear_items ''output.'' (output model)"

text \<open>The state dict as the pickled value: an (ordered) dictionary of tensors.\<close>

definition entries :: "(string \<times> 'a tensor) list \<Rightarrow> (string \<times> 'a pyobj) list" where
  "entries sd = map (\<lambda>(k, t). (k, PyTensor t)) sd"

definition pickled :: "(string \<times> 'a tensor) list \<Rightarrow> 'a pyobj" where
  "pickled sd = PyDict (entries sd)"

section \<open>\<^verbatim>\<open>load_state_dict\<close>\<close>

text \<open>
  The library routine \<^verbatim>\<open>Module.load_state_dict(state_dict, strict=True)\<close> of torch, which
  the traceback of cell 17 shows raising (\<^verbatim>\<open>if len(error_msgs) > 0: raise RuntimeError\<close>).
  Every module, in the order root, \<^verbatim>\<open>hidden_layers\<close>, its children, \<^verbatim>\<open>output\<close>,
  \<^verbatim>\<open>dropout\<close>, handles the entries under its own prefix:
  \<^item> for each of its parameters (\<^verbatim>\<open>weight\<close>, then \<^verbatim>\<open>bias\<close>), an entry of the same shape is
    copied into the parameter in place (\<^verbatim>\<open>param.tensor_copy(input_param)\<close>, which keeps the type of
    the parameter and converts the elements of an entry of the other type), an entry of
    another shape adds a \<^verbatim>\<open>size mismatch\<close> line, an entry that is no tensor adds a line, and
    an absent key is added to \<^verbatim>\<open>missing_keys\<close>;
  \<^item> each key that starts with the prefix and whose next component
    (\<^verbatim>\<open>key[len(prefix):].split('.', 1)[0]\<close>) names neither a child nor a parameter of the
    module is added to \<^verbatim>\<open>unexpected_keys\<close>.
  Only after all modules are done, and after the copies, the routine raises if there is any
  line; with \<^verbatim>\<open>strict\<close> the missing and the unexpected keys make the first two lines.
  \<open>load_param\<close> returns the parameter, its lines and its missing keys. The conversion of an
  element from one type to the other is torch's; it is the parameter \<open>cast\<close>.
\<close>

definition tensor_copy :: "(dtype \<Rightarrow> dtype \<Rightarrow> 'a \<Rightarrow> 'a) \<Rightarrow> 'a tensor \<Rightarrow> 'a tensor \<Rightarrow> 'a tensor" where
  "tensor_copy cast param input_param =
     Tensor (shape param) (dtype param)
       (if dtype input_param = dtype param then data input_param
        else map (cast (dtype input_param) (dtype param)) (data input_param))"

definition load_param ::
  "(dtype \<Rightarrow> dtype \<Rightarrow> 'a \<Rightarrow> 'a) \<Rightarrow> (string \<times> 'a pyobj) list \<Rightarrow> string \<Rightarrow> 'a tensor
     \<Rightarrow> 'a tensor \<times> msg list \<times> string list" where
  "load_param cast sd key param =
     (case map_of sd key of
        None \<Rightarrow> (param, [], [key])
      | Some (PyTensor input_param) \<Rightarrow>
          if shape input_param \<noteq> shape param
          then (param, [SizeMismatch key (shape input_param) (shape param)], [])
          else (tensor_copy cast param input_param, [], [])
      | Some _ \<Rightarrow> (param, [NotTensor key], []))"

definition startswith :: "string \<Rightarrow> string \<Rightarrow> bool" where
  "startswith key prefix = (take (length prefix) key = prefix)"

definition unexpected :: "string list \<Rightarrow> string \<Rightarrow> string list \<Rightarrow> string list" where
  "unexpected keys prefix names =
     filter (\<lambda>key. startswith key prefix \<and>
                   takeWhile (\<lambda>c. c \<noteq> CHR ''.'') (drop (length prefix) key) \<notin> set names) keys"

definition load_Linear ::
  "(dtype \<Rightarrow> dtype \<Rightarrow> 'a \<Rightarrow> 'a) \<Rightarrow> (string \<times> 'a pyobj) list \<Rightarrow> string \<Rightarrow> 'a Linear
     \<Rightarrow> 'a Linear \<times> msg list \<times> string list \<times> string list" where
  "load_Linear cast sd prefix l =
     (case load_param cast sd (prefix @ ''weight'') (weight l) of (w, e1, m1) \<Rightarrow>
      case load_param cast sd (prefix @ ''bias'') (bias l) of (b, e2, m2) \<Rightarrow>
        (l\<lparr>weight := w, bias := b\<rparr>, e1 @ e2, m1 @ m2,
         unexpected (map fst sd) prefix [''weight'', ''bias'']))"

definition load_hidden ::
  "(dtype \<Rightarrow> dtype \<Rightarrow> 'a \<Rightarrow> 'a) \<Rightarrow> (string \<times> 'a pyobj) list \<Rightarrow> 'a Linear list
     \<Rightarrow> ('a Linear \<times> msg list \<times> string list \<times> string list) list" where
  "load_hidden cast sd ls =
     map (\<lambda>(i, l). load_Linear cast sd (hidden_prefix i) l) (enumerate 0 ls)"

definition size_errors ::
  "(dtype \<Rightarrow> dtype \<Rightarrow> 'a \<Rightarrow> 'a) \<Rightarrow> 'a Network \<Rightarrow> (string \<times> 'a pyobj) list \<Rightarrow> msg list" where
  "size_errors cast self sd =
     concat (map (\<lambda>(l, e, m, u). e) (load_hidden cast sd (hidden_layers self)))
     @ fst (snd (load_Linear cast sd ''output.'' (output self)))"

definition missing_keys ::
  "(dtype \<Rightarrow> dtype \<Rightarrow> 'a \<Rightarrow> 'a) \<Rightarrow> 'a Network \<Rightarrow> (string \<times> 'a pyobj) list \<Rightarrow> string list" where
  "missing_keys cast self sd =
     concat (map (\<lambda>(l, e, m, u). m) (load_hidden cast sd (hidden_layers self)))
     @ fst (snd (snd (load_Linear cast sd ''output.'' (output self))))"

definition unexpected_keys ::
  "(dtype \<Rightarrow> dtype \<Rightarrow> 'a \<Rightarrow> 'a) \<Rightarrow> 'a Network \<Rightarrow> (string \<times> 'a pyobj) list \<Rightarrow> string list" where
  "unexpected_keys cast self sd =
     unexpected (map fst sd) [] [''hidden_layers'', ''output'', ''dropout'']
     @ unexpected (map fst sd) ''hidden_layers.'' (map str [0..<length (hidden_layers self)])
     @ concat (map (\<lambda>(l, e, m, u). u) (load_hidden cast sd (hidden_layers self)))
     @ snd (snd (snd (load_Linear cast sd ''output.'' (output self))))
     @ unexpected (map fst sd) ''dropout.'' []"

definition copied ::
  "(dtype \<Rightarrow> dtype \<Rightarrow> 'a \<Rightarrow> 'a) \<Rightarrow> 'a Network \<Rightarrow> (string \<times> 'a pyobj) list \<Rightarrow> 'a Network" where
  "copied cast self sd =
     \<lparr>hidden_layers = map fst (load_hidden cast sd (hidden_layers self)),
      output = fst (load_Linear cast sd ''output.'' (output self))\<rparr>"

definition load_state_dict ::
  "(dtype \<Rightarrow> dtype \<Rightarrow> 'a \<Rightarrow> 'a) \<Rightarrow> 'a Network \<Rightarrow> (string \<times> 'a pyobj) list \<Rightarrow> bool
     \<Rightarrow> 'a Network \<times> (error + string list \<times> string list)" where
  "load_state_dict cast self sd strict =
     (let error_msgs =
            (if strict \<and> missing_keys cast self sd \<noteq> []
             then [MissingKeys (missing_keys cast self sd)] else [])
            @ (if strict \<and> unexpected_keys cast self sd \<noteq> []
               then [UnexpectedKeys (unexpected_keys cast self sd)] else [])
            @ size_errors cast self sd
      in (copied cast self sd,
          if error_msgs \<noteq> [] then Inl (RuntimeError error_msgs)
          else Inr (missing_keys cast self sd, unexpected_keys cast self sd)))"

section \<open>Files, model instances, and the cells of the notebook\<close>

text \<open>
  The world of the notebook: the files by path, and the model instances by address (an
  instance is a mutable object; a new one is allocated at the end of the heap). A cell that
  uses the variable \<^verbatim>\<open>model\<close> takes the address it holds; an address outside the heap is an
  unbound name. Writing a file always succeeds here, and reading gives back what was written.
\<close>

record 'a world =
  files :: "string \<Rightarrow> 'a pyobj option"
  heap :: "'a Network list"

definition torch_save :: "'a pyobj \<Rightarrow> string \<Rightarrow> 'a world \<Rightarrow> (error + unit) \<times> 'a world" where
  "torch_save obj path s = (Inr (), s\<lparr>files := (files s)(path \<mapsto> obj)\<rparr>)"

definition torch_load :: "string \<Rightarrow> 'a world \<Rightarrow> (error + 'a pyobj) \<times> 'a world" where
  "torch_load path s =
     (case files s path of None \<Rightarrow> (Inl (FileNotFoundError path), s) | Some obj \<Rightarrow> (Inr obj, s))"

text \<open>Cell 14: \<^verbatim>\<open>torch.save(model.state_dict(), 'checkpoint.pth')\<close>.\<close>

definition save_state_dict :: "nat \<Rightarrow> 'a world \<Rightarrow> (error + unit) \<times> 'a world" where
  "save_state_dict model s =
     (if model < length (heap s)
      then torch_save (pickled (state_dict (heap s ! model))) ''checkpoint.pth'' s
      else (Inl (NameError ''model''), s))"

text \<open>
  Cell 18: the dictionary \<^verbatim>\<open>checkpoint\<close>, with the literals 784 and 10 of the notebook, the
  \<^verbatim>\<open>out_features\<close> of each hidden layer and the state dict; then
  \<^verbatim>\<open>torch.save(checkpoint, 'checkpoint.pth')\<close>.
\<close>

definition checkpoint :: "'a Network \<Rightarrow> 'a pyobj" where
  "checkpoint model =
     PyDict [(''input_size'', PyInt 784),
             (''output_size'', PyInt 10),
             (''hidden_layers'', PyList (map (\<lambda>each. int (out_features each)) (hidden_layers model))),
             (''state_dict'', pickled (state_dict model))]"

definition save :: "nat \<Rightarrow> 'a world \<Rightarrow> (error + unit) \<times> 'a world" where
  "save model s =
     (if model < length (heap s)
      then torch_save (checkpoint (heap s ! model)) ''checkpoint.pth'' s
      else (Inl (NameError ''model''), s))"

text \<open>
  Cell 19, \<^verbatim>\<open>load_checkpoint(filepath)\<close>: the three fields of the descriptor are read, then
  the model is constructed, then \<^verbatim>\<open>checkpoint['state_dict']\<close> is read and loaded into the new
  instance with the default \<^verbatim>\<open>strict=True\<close>. The result is the address of the new instance.
  An exception leaves the function at once: what was allocated stays in the heap, with no
  address returned. A \<^verbatim>\<open>state_dict\<close> entry that is no dictionary makes the library raise;
  \<^verbatim>\<open>TypeError\<close> stands for that exception.
\<close>

definition load_checkpoint ::
  "(nat list \<Rightarrow> 'a list) \<Rightarrow> (dtype \<Rightarrow> dtype \<Rightarrow> 'a \<Rightarrow> 'a) \<Rightarrow> string \<Rightarrow> 'a world
     \<Rightarrow> (error + nat) \<times> 'a world" where
  "load_checkpoint init cast filepath s =
     (case fst (torch_load filepath s) of Inl e \<Rightarrow> (Inl e, s) | Inr ckpt \<Rightarrow>
      case subscript ckpt ''input_size'' of Inl e \<Rightarrow> (Inl e, s) | Inr a \<Rightarrow>
      case subscript ckpt ''output_size'' of Inl e \<Rightarrow> (Inl e, s) | Inr b \<Rightarrow>
      case subscript ckpt ''hidden_layers'' of Inl e \<Rightarrow> (Inl e, s) | Inr c \<Rightarrow>
      case Network_new init a b c of Inl e \<Rightarrow> (Inl e, s) | Inr net \<Rightarrow>
      case subscript ckpt ''state_dict'' of
        Inl e \<Rightarrow> (Inl e, s\<lparr>heap := heap s @ [net]\<rparr>)
      | Inr (PyDict sd) \<Rightarrow>
          (case load_state_dict cast net sd True of
             (net', Inl e) \<Rightarrow> (Inl e, s\<lparr>heap := heap s @ [net']\<rparr>)
           | (net', Inr keys) \<Rightarrow> (Inr (length (heap s)), s\<lparr>heap := heap s @ [net']\<rparr>))
      | Inr _ \<Rightarrow> (Inl TypeError, s\<lparr>heap := heap s @ [net]\<rparr>))"

section \<open>Well-formed models\<close>

text \<open>
  The data model of the spec: the descriptor is valid when the sizes are positive and there
  is at least one hidden layer; the parameters match it when each layer takes the size the
  previous one gives (the first takes \<open>input_size\<close>), with a weight of shape
  \<open>[out, in]\<close> and a bias of shape \<open>[out]\<close>, and the output layer gives \<open>output_size\<close>.
\<close>

definition descriptor_valid :: "nat \<Rightarrow> nat \<Rightarrow> nat list \<Rightarrow> bool" where
  "descriptor_valid input_size output_size hs =
     (0 < input_size \<and> 0 < output_size \<and> hs \<noteq> [] \<and> list_all (\<lambda>h. 0 < h) hs)"

fun chain_ok :: "nat \<Rightarrow> 'a Linear list \<Rightarrow> bool" where
  "chain_ok n [] = True"
| "chain_ok n (l # ls) =
     (in_features l = n \<and> shape (weight l) = [out_features l, in_features l] \<and>
      shape (bias l) = [out_features l] \<and> chain_ok (out_features l) ls)"

definition shapes_match :: "nat \<Rightarrow> nat \<Rightarrow> nat list \<Rightarrow> 'a Network \<Rightarrow> bool" where
  "shapes_match input_size output_size hs model =
     (map out_features (hidden_layers model) = hs \<and>
      chain_ok input_size (hidden_layers model @ [output model]) \<and>
      out_features (output model) = output_size)"

text \<open>A model all of whose parameters have the default type \<^verbatim>\<open>torch.float32\<close>.\<close>

definition default_dtype :: "'a Network \<Rightarrow> bool" where
  "default_dtype model =
     list_all (\<lambda>l. dtype (weight l) = Float32 \<and> dtype (bias l) = Float32)
       (hidden_layers model @ [output model])"

text \<open>
  What \<^verbatim>\<open>copy_\<close> makes of the layers of a model when the parameters of the layers of another
  are copied into them, layer by layer.
\<close>

definition copy_Linear ::
  "(dtype \<Rightarrow> dtype \<Rightarrow> 'a \<Rightarrow> 'a) \<Rightarrow> 'a Linear \<Rightarrow> 'a Linear \<Rightarrow> 'a Linear" where
  "copy_Linear cast l src =
     l\<lparr>weight := tensor_copy cast (weight l) (weight src), bias := tensor_copy cast (bias l) (bias src)\<rparr>"

definition copy_Network ::
  "(dtype \<Rightarrow> dtype \<Rightarrow> 'a \<Rightarrow> 'a) \<Rightarrow> 'a Network \<Rightarrow> 'a Network \<Rightarrow> 'a Network" where
  "copy_Network cast self src =
     \<lparr>hidden_layers = map2 (copy_Linear cast) (hidden_layers self) (hidden_layers src),
      output = copy_Linear cast (output self) (output src)\<rparr>"

text \<open>
  For a key and a parameter of a model: the state dict has no entry for the key, or a tensor
  of another shape; and: the parameter has the shape of the tensor stored under its key and
  holds its elements (converted, where the stored tensor has the other type).
\<close>

definition missing_or_mismatched :: "(string \<times> 'a pyobj) list \<Rightarrow> string \<times> 'a tensor \<Rightarrow> bool" where
  "missing_or_mismatched sd kp =
     (case map_of sd (fst kp) of
        None \<Rightarrow> True
      | Some (PyTensor t) \<Rightarrow> shape t \<noteq> shape (snd kp)
      | Some _ \<Rightarrow> False)"

definition loaded_from ::
  "(dtype \<Rightarrow> dtype \<Rightarrow> 'a \<Rightarrow> 'a) \<Rightarrow> (string \<times> 'a pyobj) list \<Rightarrow> string \<times> 'a tensor \<Rightarrow> bool" where
  "loaded_from cast sd kp =
     (case map_of sd (fst kp) of
        Some (PyTensor t) \<Rightarrow> shape t = shape (snd kp) \<and> tensor_copy cast (snd kp) t = snd kp
      | _ \<Rightarrow> False)"

text \<open>The entries of the hidden layers in the state dict, numbered from \<open>k\<close>.\<close>

definition hidden_items :: "nat \<Rightarrow> 'a Linear list \<Rightarrow> (string \<times> 'a tensor) list" where
  "hidden_items k ls = concat (map (\<lambda>(i, l). linear_items (hidden_prefix i) l) (enumerate k ls))"

section \<open>Concrete elements and models\<close>

text \<open>
  Elements for the examples: the non-finite values of a floating-point type, and the finite
  values that are integers (no example needs a fraction). Converting to a type rounds a finite
  value to the significant bits of the type, 24 for \<^verbatim>\<open>float32\<close> and 53 for \<^verbatim>\<open>float64\<close>, ties
  to even, and gives an infinity beyond its range; 16777217 is the first integer that
  \<^verbatim>\<open>float32\<close> cannot hold.
\<close>

datatype scalar = NaN | PInf | NInf | Fin int

function bitlen :: "nat \<Rightarrow> nat" where
  "bitlen n = (if n = 0 then 0 else Suc (bitlen (n div 2)))"
  by pat_completeness auto
termination
  by (relation "measure id") auto

declare bitlen.simps [simp del]

definition round_to :: "nat \<Rightarrow> nat \<Rightarrow> nat" where
  "round_to p n =
     (let k = bitlen n - p; q = n div 2 ^ k; r = n mod 2 ^ k
      in if k = 0 then n
         else (if 2 ^ k < 2 * r \<or> (2 * r = 2 ^ k \<and> odd q) then q + 1 else q) * 2 ^ k)"

fun significant_bits :: "dtype \<Rightarrow> nat" where
  "significant_bits Float32 = 24"
| "significant_bits Float64 = 53"

fun exponent_limit :: "dtype \<Rightarrow> nat" where
  "exponent_limit Float32 = 128"
| "exponent_limit Float64 = 1024"

fun to_dtype :: "dtype \<Rightarrow> scalar \<Rightarrow> scalar" where
  "to_dtype d (Fin x) =
     (let r = round_to (significant_bits d) (nat \<bar>x\<bar>)
      in if 2 ^ exponent_limit d \<le> r then (if x < 0 then NInf else PInf)
         else Fin (if x < 0 then - int r else int r))"
| "to_dtype d NaN = NaN"
| "to_dtype d PInf = PInf"
| "to_dtype d NInf = NInf"

definition float_cast :: "dtype \<Rightarrow> dtype \<Rightarrow> scalar \<Rightarrow> scalar" where
  "float_cast src dst x = to_dtype dst x"

text \<open>
  Freshly constructed models with all parameters zero: \<^verbatim>\<open>Network(3, 2, [2])\<close>,
  \<^verbatim>\<open>Network(784, 10, [2])\<close>, and the two models of cells 11 and 17,
  \<^verbatim>\<open>Network(784, 10, [512, 256, 128])\<close> and \<^verbatim>\<open>Network(784, 10, [400, 200, 100])\<close>.
\<close>

definition zeros :: "nat list \<Rightarrow> scalar list" where
  "zeros shp = replicate (prod_list shp) (Fin 0)"

definition small_model :: "scalar Network" where
  "small_model = \<lparr>hidden_layers = [Linear_new zeros 3 2], output = Linear_new zeros 2 2\<rparr>"

definition mnist_model :: "scalar Network" where
  "mnist_model = \<lparr>hidden_layers = [Linear_new zeros 784 2], output = Linear_new zeros 2 10\<rparr>"

definition model_512 :: "scalar Network" where
  "model_512 =
     \<lparr>hidden_layers = [Linear_new zeros 784 512, Linear_new zeros 512 256, Linear_new zeros 256 128],
      output = Linear_new zeros 128 10\<rparr>"

definition model_400 :: "scalar Network" where
  "model_400 =
     \<lparr>hidden_layers = [Linear_new zeros 784 400, Linear_new zeros 400 200, Linear_new zeros 200 100],
      output = Linear_new zeros 100 10\<rparr>"

text \<open>
  Models that are not in their initial state. \<open>trained_model\<close> is \<^verbatim>\<open>Network(784, 10, [2])\<close>
  after its parameters have changed; \<open>nonfinite_model\<close> has NaN and both infinities among
  them; \<open>double_model\<close> is \<open>trained_model\<close> after \<^verbatim>\<open>model.double()\<close>, with an element that
  \<^verbatim>\<open>float32\<close> cannot hold; \<open>nonfinite_double_model\<close> is a \<^verbatim>\<open>float64\<close> model with non-finite
  biases; \<open>nonfinite_small_model\<close> is \<^verbatim>\<open>Network(3, 2, [2])\<close> with non-finite parameters.
\<close>

definition ones :: "nat list \<Rightarrow> scalar list" where
  "ones shp = replicate (prod_list shp) (Fin 1)"

definition trained_model :: "scalar Network" where
  "trained_model =
     \<lparr>hidden_layers =
        [\<lparr>in_features = 784, out_features = 2,
          weight = Tensor [2, 784] Float32 (ones [2, 784]),
          bias = Tensor [2] Float32 [Fin 7, Fin (- 8)]\<rparr>],
      output =
        \<lparr>in_features = 2, out_features = 10,
         weight = Tensor [10, 2] Float32 (ones [10, 2]),
         bias = Tensor [10] Float32
                  [Fin 1, Fin 2, Fin 3, Fin 4, Fin 5, Fin 6, Fin 7, Fin 8, Fin 9, Fin 10]\<rparr>\<rparr>"

definition nonfinite_model :: "scalar Network" where
  "nonfinite_model =
     \<lparr>hidden_layers =
        [\<lparr>in_features = 784, out_features = 2,
          weight = Tensor [2, 784] Float32 (ones [2, 784]),
          bias = Tensor [2] Float32 [NaN, PInf]\<rparr>],
      output =
        \<lparr>in_features = 2, out_features = 10,
         weight = Tensor [10, 2] Float32 (ones [10, 2]),
         bias = Tensor [10] Float32
                  [NInf, NaN, PInf, Fin 4, Fin 5, Fin 6, Fin 7, Fin 8, Fin 9, Fin 10]\<rparr>\<rparr>"

definition double_model :: "scalar Network" where
  "double_model =
     \<lparr>hidden_layers =
        [\<lparr>in_features = 784, out_features = 2,
          weight = Tensor [2, 784] Float64 (ones [2, 784]),
          bias = Tensor [2] Float64 [Fin 16777217, Fin (- 8)]\<rparr>],
      output =
        \<lparr>in_features = 2, out_features = 10,
         weight = Tensor [10, 2] Float64 (ones [10, 2]),
         bias = Tensor [10] Float64
                  [Fin 1, Fin 2, Fin 3, Fin 4, Fin 5, Fin 6, Fin 7, Fin 8, Fin 9, Fin 10]\<rparr>\<rparr>"

definition nonfinite_double_model :: "scalar Network" where
  "nonfinite_double_model =
     \<lparr>hidden_layers =
        [\<lparr>in_features = 784, out_features = 2,
          weight = Tensor [2, 784] Float64 (ones [2, 784]),
          bias = Tensor [2] Float64 [NaN, NInf]\<rparr>],
      output =
        \<lparr>in_features = 2, out_features = 10,
         weight = Tensor [10, 2] Float64 (ones [10, 2]),
         bias = Tensor [10] Float64 (ones [10])\<rparr>\<rparr>"

definition nonfinite_small_model :: "scalar Network" where
  "nonfinite_small_model =
     \<lparr>hidden_layers =
        [\<lparr>in_features = 3, out_features = 2,
          weight = Tensor [2, 3] Float32 [Fin 1, NaN, Fin 3, PInf, Fin 5, NInf],
          bias = Tensor [2] Float32 [NaN, PInf]\<rparr>],
      output =
        \<lparr>in_features = 2, out_features = 2,
         weight = Tensor [2, 2] Float32 [Fin 1, Fin 2, Fin 3, Fin 4],
         bias = Tensor [2] Float32 [NInf, Fin 0]\<rparr>\<rparr>"

text \<open>A world with no file and one model instance, at address 0.\<close>

definition world_of :: "'a Network \<Rightarrow> 'a world" where
  "world_of model = \<lparr>files = Map.empty, heap = [model]\<rparr>"

text \<open>Checkpoints that were changed after saving, and a world that holds one file.\<close>

definition remove_key :: "string \<Rightarrow> (string \<times> 'a pyobj) list \<Rightarrow> (string \<times> 'a pyobj) list" where
  "remove_key key sd = filter (\<lambda>(k, v). k \<noteq> key) sd"

definition stored :: "'a pyobj \<Rightarrow> 'a world" where
  "stored obj = \<lparr>files = [''checkpoint.pth'' \<mapsto> obj], heap = []\<rparr>"

definition mnist_fields :: "(string \<times> scalar pyobj) list" where
  "mnist_fields =
     [(''input_size'', PyInt 784), (''output_size'', PyInt 10), (''hidden_layers'', PyList [2])]"

definition extra_state_dict :: "(string \<times> scalar pyobj) list" where
  "extra_state_dict =
     entries (state_dict mnist_model) @ [(''extra.weight'', PyTensor (Tensor [1] Float32 [Fin 0]))]"

definition extra_checkpoint :: "scalar pyobj" where
  "extra_checkpoint = PyDict (mnist_fields @ [(''state_dict'', PyDict extra_state_dict)])"

definition missing_state_dict :: "(string \<times> scalar pyobj) list" where
  "missing_state_dict = remove_key ''output.bias'' (entries (state_dict mnist_model))"

definition missing_checkpoint :: "scalar pyobj" where
  "missing_checkpoint = PyDict (mnist_fields @ [(''state_dict'', PyDict missing_state_dict)])"

definition no_state_dict_checkpoint :: "scalar pyobj" where
  "no_state_dict_checkpoint = PyDict mnist_fields"

section \<open>The shape invariant of the spec\<close>

text \<open>
  The invariant of the spec's data model, in its words: for each hidden layer \<open>i\<close> the weight
  has shape \<open>(hidden_layer_sizes[i], hidden_layer_sizes[i-1] or input_size)\<close> and the bias has
  length \<open>hidden_layer_sizes[i]\<close>; the weight of the output layer has shape
  \<open>(output_size, hidden_layer_sizes[-1])\<close>. A checkpoint satisfies it when its descriptor and
  its state dict do.
\<close>

definition shape_at :: "(string \<times> 'a pyobj) list \<Rightarrow> string \<Rightarrow> nat list option" where
  "shape_at sd key = (case map_of sd key of Some (PyTensor t) \<Rightarrow> Some (shape t) | _ \<Rightarrow> None)"

definition shape_invariant :: "nat \<Rightarrow> nat \<Rightarrow> nat list \<Rightarrow> (string \<times> 'a pyobj) list \<Rightarrow> bool" where
  "shape_invariant input_size output_size hs sd =
     (list_all (\<lambda>i. shape_at sd (hidden_prefix i @ ''weight'')
                       = Some [hs ! i, if i = 0 then input_size else hs ! (i - 1)] \<and>
                     shape_at sd (hidden_prefix i @ ''bias'') = Some [hs ! i]) [0..<length hs] \<and>
      shape_at sd ''output.weight'' = Some [output_size, last hs])"

fun checkpoint_invariant :: "'a pyobj \<Rightarrow> bool" where
  "checkpoint_invariant (PyDict kvs) =
     (case (map_of kvs ''input_size'', map_of kvs ''output_size'', map_of kvs ''hidden_layers'',
            map_of kvs ''state_dict'') of
        (Some (PyInt a), Some (PyInt b), Some (PyList hs), Some (PyDict sd)) \<Rightarrow>
          0 \<le> a \<and> 0 \<le> b \<and> list_all (\<lambda>h. 0 \<le> h) hs \<and> hs \<noteq> [] \<and>
          shape_invariant (nat a) (nat b) (map nat hs) sd
      | _ \<Rightarrow> False)"
| "checkpoint_invariant _ = False"

text \<open>A dictionary with the first field of the descriptor only.\<close>

definition partial_checkpoint :: "scalar pyobj" where
  "partial_checkpoint = PyDict [(''input_size'', PyInt 784)]"

section \<open>Strings and keys\<close>

lemma digit_cases: "n < 10 \<Longrightarrow> n \<in> {0, 1, 2, 3, 4, 5, 6, 7, 8, 9 :: nat}"
  by (simp, arith)

lemma digit_not_dot: "n < 10 \<Longrightarrow> digit n \<noteq> CHR ''.''"
  using digit_cases [of n] by (auto simp: digit_def)

lemma digit_inj: "m < 10 \<Longrightarrow> n < 10 \<Longrightarrow> digit m = digit n \<Longrightarrow> m = n"
  using digit_cases [of m] digit_cases [of n] by (auto simp: digit_def)

lemma str_no_dot: "CHR ''.'' \<notin> set (str n)"
proof (induction n rule: str.induct)
  case (1 n)
  show ?case
  proof (cases "n < 10")
    case True
    then show ?thesis using digit_not_dot [of n] by (simp add: str.simps [of n])
  next
    case False
    then show ?thesis
      using 1 digit_not_dot [of "n mod 10"] by (simp add: str.simps [of n])
  qed
qed

lemma str_not_Nil: "str n \<noteq> []"
  by (simp add: str.simps [of n])

lemma str_inj: "str m = str n \<Longrightarrow> m = n"
proof (induction m arbitrary: n rule: str.induct)
  case (1 m)
  show ?case
  proof (cases "m < 10")
    case m: True
    show ?thesis
    proof (cases "n < 10")
      case True
      with m 1(2) show ?thesis by (simp add: str.simps [of m] str.simps [of n] digit_inj)
    next
      case False
      with m 1(2) str_not_Nil [of "n div 10"] show ?thesis
        by (simp add: str.simps [of m] str.simps [of n])
    qed
  next
    case m: False
    show ?thesis
    proof (cases "n < 10")
      case True
      with m 1(2) str_not_Nil [of "m div 10"] show ?thesis
        by (simp add: str.simps [of m] str.simps [of n])
    next
      case False
      with m 1(2) have e: "str (m div 10) = str (n div 10)" "digit (m mod 10) = digit (n mod 10)"
        by (simp_all add: str.simps [of m] str.simps [of n])
      from 1(1) [OF m e(1)] have "m div 10 = n div 10" .
      moreover from e(2) have "m mod 10 = n mod 10" by (simp add: digit_inj)
      ultimately show ?thesis by (metis div_mult_mod_eq)
    qed
  qed
qed

lemma dot_split:
  assumes "CHR ''.'' \<notin> set a" "CHR ''.'' \<notin> set b" "a @ CHR ''.'' # r = b @ CHR ''.'' # r'"
  shows "a = b \<and> r = r'"
proof -
  have "takeWhile (\<lambda>c. c \<noteq> CHR ''.'') (a @ CHR ''.'' # r) = a"
    using assms(1) by (auto simp: takeWhile_tail takeWhile_eq_all_conv)
  moreover have "takeWhile (\<lambda>c. c \<noteq> CHR ''.'') (b @ CHR ''.'' # r') = b"
    using assms(2) by (auto simp: takeWhile_tail takeWhile_eq_all_conv)
  ultimately have "a = b" using assms(3) by simp
  with assms(3) show ?thesis by simp
qed

lemma hidden_key_eq [simp]: "(hidden_prefix i @ a = hidden_prefix j @ b) = (i = j \<and> a = b)"
proof
  assume "hidden_prefix i @ a = hidden_prefix j @ b"
  then have "str i @ CHR ''.'' # a = str j @ CHR ''.'' # b"
    by (simp add: hidden_prefix_def)
  from dot_split [OF str_no_dot str_no_dot this] show "i = j \<and> a = b"
    by (auto dest: str_inj)
qed simp

lemma hidden_prefix_inj [simp]: "(hidden_prefix i = hidden_prefix j) = (i = j)"
  using hidden_key_eq [of i "[]" j "[]"] by simp

lemma hidden_key_ne_output [simp]:
  "hidden_prefix i @ a \<noteq> CHR ''o'' # b" "CHR ''o'' # b \<noteq> hidden_prefix i @ a"
  by (simp_all add: hidden_prefix_def)


subsection \<open>Keys of the state dict\<close>

lemma hidden_items_simps [simp]:
  "hidden_items k [] = []"
  "hidden_items k (l # ls) = linear_items (hidden_prefix k) l @ hidden_items (Suc k) ls"
  by (simp_all add: hidden_items_def)

lemma state_dict_alt:
  "state_dict m = hidden_items 0 (hidden_layers m) @ linear_items ''output.'' (output m)"
  by (simp add: state_dict_def hidden_items_def)

lemma hidden_items_keys:
  "set (map fst (hidden_items k ls)) =
     {hidden_prefix i @ nm | i nm. k \<le> i \<and> i < k + length ls \<and> (nm = ''weight'' \<or> nm = ''bias'')}"
proof (induction ls arbitrary: k)
  case Nil
  then show ?case by simp
next
  case (Cons l ls)
  have "{hidden_prefix i @ nm | i nm. k \<le> i \<and> i < k + length (l # ls) \<and> (nm = ''weight'' \<or> nm = ''bias'')}
      = {hidden_prefix k @ ''weight'', hidden_prefix k @ ''bias''}
        \<union> {hidden_prefix i @ nm | i nm. Suc k \<le> i \<and> i < Suc k + length ls \<and> (nm = ''weight'' \<or> nm = ''bias'')}"
    (is "?A = ?B \<union> ?C")
  proof (intro set_eqI iffI)
    fix x assume "x \<in> ?A"
    then obtain i nm where x: "x = hidden_prefix i @ nm" "k \<le> i" "i < k + length (l # ls)"
      "nm = ''weight'' \<or> nm = ''bias''" by blast
    show "x \<in> ?B \<union> ?C"
    proof (cases "i = k")
      case True
      with x show ?thesis by auto
    next
      case False
      with x have "Suc k \<le> i" "i < Suc k + length ls" by auto
      with x show ?thesis by blast
    qed
  next
    fix x assume "x \<in> ?B \<union> ?C"
    then show "x \<in> ?A"
    proof
      assume "x \<in> ?B"
      then show ?thesis by auto
    next
      assume "x \<in> ?C"
      then obtain i nm where x: "x = hidden_prefix i @ nm" "Suc k \<le> i" "i < Suc k + length ls"
        "nm = ''weight'' \<or> nm = ''bias''" by blast
      then have "k \<le> i" "i < k + length (l # ls)" by auto
      with x show ?thesis by blast
    qed
  qed
  with Cons [of "Suc k"] show ?case by (simp add: linear_items_def)
qed

lemma state_dict_keys:
  "set (map fst (state_dict m)) =
     {hidden_prefix i @ nm | i nm. i < length (hidden_layers m) \<and> (nm = ''weight'' \<or> nm = ''bias'')}
     \<union> {''output.weight'', ''output.bias''}"
  using hidden_items_keys [of 0 "hidden_layers m"]
  by (simp add: state_dict_alt linear_items_def Un_commute)

lemma hidden_items_absent:
  "j < k \<Longrightarrow> map_of (hidden_items k ls) (hidden_prefix j @ nm) = None"
  by (induction ls arbitrary: k) (auto simp: linear_items_def)

lemma hidden_items_weight:
  "k \<le> j \<Longrightarrow> j < k + length ls \<Longrightarrow>
   map_of (hidden_items k ls) (hidden_prefix j @ ''weight'') = Some (weight (ls ! (j - k)))"
proof (induction ls arbitrary: k)
  case Nil
  then show ?case by simp
next
  case (Cons l ls)
  show ?case
  proof (cases "j = k")
    case True
    then show ?thesis by (simp add: linear_items_def hidden_items_absent map_add_def)
  next
    case False
    with Cons.prems have "Suc k \<le> j" "j < Suc k + length ls" by auto
    from Cons.IH [OF this] False Cons.prems show ?thesis
      by (simp add: linear_items_def map_add_def Suc_diff_Suc)
  qed
qed

lemma hidden_items_bias:
  "k \<le> j \<Longrightarrow> j < k + length ls \<Longrightarrow>
   map_of (hidden_items k ls) (hidden_prefix j @ ''bias'') = Some (bias (ls ! (j - k)))"
proof (induction ls arbitrary: k)
  case Nil
  then show ?case by simp
next
  case (Cons l ls)
  show ?case
  proof (cases "j = k")
    case True
    then show ?thesis by (simp add: linear_items_def hidden_items_absent map_add_def)
  next
    case False
    with Cons.prems have "Suc k \<le> j" "j < Suc k + length ls" by auto
    from Cons.IH [OF this] False Cons.prems show ?thesis
      by (simp add: linear_items_def map_add_def Suc_diff_Suc)
  qed
qed

lemma hidden_items_no_output:
  "map_of (hidden_items k ls) (CHR ''o'' # key) = None"
  by (induction ls arbitrary: k) (auto simp: linear_items_def)

lemma map_of_entries: "map_of (entries sd) key = map_option PyTensor (map_of sd key)"
  by (induction sd) (auto simp: entries_def)

lemma lookup_hidden:
  assumes "i < length (hidden_layers m)"
  shows "map_of (state_dict m) (hidden_prefix i @ ''weight'') = Some (weight (hidden_layers m ! i))"
    and "map_of (state_dict m) (hidden_prefix i @ ''bias'') = Some (bias (hidden_layers m ! i))"
  using assms hidden_items_weight [of 0 i "hidden_layers m"] hidden_items_bias [of 0 i "hidden_layers m"]
  by (simp_all add: state_dict_alt map_add_def)

lemma lookup_output:
  "map_of (state_dict m) ''output.weight'' = Some (weight (output m))"
  "map_of (state_dict m) ''output.bias'' = Some (bias (output m))"
  using hidden_items_no_output [of 0 "hidden_layers m"]
  by (simp_all add: state_dict_alt map_add_def linear_items_def)

subsection \<open>Unexpected keys\<close>

lemma keys_entries [simp]: "map fst (entries sd) = map fst sd"
  by (induction sd) (auto simp: entries_def)

lemma unexpected_Nil_iff:
  "(unexpected keys p names = []) =
   (\<forall>key\<in>set keys. startswith key p \<longrightarrow>
      takeWhile (\<lambda>c. c \<noteq> CHR ''.'') (drop (length p) key) \<in> set names)"
  by (auto simp: unexpected_def filter_empty_conv)

lemma startswith_split: "startswith key p \<Longrightarrow> key = p @ drop (length p) key"
  unfolding startswith_def by (metis append_take_drop_id)

lemma startswith_hidden [simp]:
  "startswith (hidden_prefix i @ nm) (hidden_prefix j) = (i = j)"
proof
  assume "startswith (hidden_prefix i @ nm) (hidden_prefix j)"
  from startswith_split [OF this] show "i = j" by simp
qed (simp add: startswith_def)

lemma takeWhile_str [simp]: "takeWhile (\<lambda>c. c \<noteq> CHR ''.'') (str i @ CHR ''.'' # r) = str i"
  using str_no_dot [of i] by (auto simp: takeWhile_tail takeWhile_eq_all_conv)

lemma state_dict_key_cases:
  assumes "key \<in> set (map fst (state_dict m))"
  obtains i nm where "i < length (hidden_layers m)" "nm = ''weight'' \<or> nm = ''bias''"
      "key = hidden_prefix i @ nm"
    | "key = ''output.weight'' \<or> key = ''output.bias''"
  using assms unfolding state_dict_keys by blast

lemma unexpected_root:
  "unexpected (map fst (state_dict m)) [] [''hidden_layers'', ''output'', ''dropout''] = []"
  unfolding unexpected_Nil_iff
proof (intro ballI impI)
  fix key assume "key \<in> set (map fst (state_dict m))"
  then show "takeWhile (\<lambda>c. c \<noteq> CHR ''.'') (drop (length ([]::string)) key)
      \<in> set [''hidden_layers'', ''output'', ''dropout'']"
    by (cases rule: state_dict_key_cases) (auto simp: hidden_prefix_def)
qed

lemma unexpected_list:
  "length (hidden_layers m) \<le> n \<Longrightarrow>
   unexpected (map fst (state_dict m)) ''hidden_layers.'' (map str [0..<n]) = []"
  unfolding unexpected_Nil_iff
proof (intro ballI impI)
  fix key assume n: "length (hidden_layers m) \<le> n"
    and k: "key \<in> set (map fst (state_dict m))" and s: "startswith key ''hidden_layers.''"
  from k show "takeWhile (\<lambda>c. c \<noteq> CHR ''.'') (drop (length ''hidden_layers.'') key)
      \<in> set (map str [0..<n])"
  proof (cases rule: state_dict_key_cases)
    case (1 i nm)
    with n show ?thesis by (auto simp: hidden_prefix_def)
  next
    case 2
    with s show ?thesis by (auto simp: startswith_def)
  qed
qed

lemma unexpected_hidden:
  "unexpected (map fst (state_dict m)) (hidden_prefix j) [''weight'', ''bias''] = []"
  unfolding unexpected_Nil_iff
proof (intro ballI impI)
  fix key assume k: "key \<in> set (map fst (state_dict m))" and s: "startswith key (hidden_prefix j)"
  from k show "takeWhile (\<lambda>c. c \<noteq> CHR ''.'') (drop (length (hidden_prefix j)) key)
      \<in> set [''weight'', ''bias'']"
  proof (cases rule: state_dict_key_cases)
    case (1 i nm)
    with s show ?thesis by auto
  next
    case 2
    with s show ?thesis by (auto simp: startswith_def hidden_prefix_def)
  qed
qed

lemma unexpected_output:
  "unexpected (map fst (state_dict m)) ''output.'' [''weight'', ''bias''] = []"
  unfolding unexpected_Nil_iff
proof (intro ballI impI)
  fix key assume k: "key \<in> set (map fst (state_dict m))" and s: "startswith key ''output.''"
  from k show "takeWhile (\<lambda>c. c \<noteq> CHR ''.'') (drop (length ''output.'') key)
      \<in> set [''weight'', ''bias'']"
  proof (cases rule: state_dict_key_cases)
    case (1 i nm)
    with s show ?thesis by (auto simp: startswith_def hidden_prefix_def)
  next
    case 2
    then show ?thesis by auto
  qed
qed

lemma unexpected_dropout:
  "unexpected (map fst (state_dict m)) ''dropout.'' [] = []"
  unfolding unexpected_Nil_iff
proof (intro ballI impI)
  fix key assume k: "key \<in> set (map fst (state_dict m))" and s: "startswith key ''dropout.''"
  from k show "takeWhile (\<lambda>c. c \<noteq> CHR ''.'') (drop (length ''dropout.'') key) \<in> set []"
    using s by (cases rule: state_dict_key_cases) (auto simp: startswith_def hidden_prefix_def)
qed

subsection \<open>Loading one module\<close>

lemma load_hidden_length [simp]: "length (load_hidden cast sd ls) = length ls"
  by (simp add: load_hidden_def)

lemma load_hidden_nth:
  "i < length ls \<Longrightarrow> load_hidden cast sd ls ! i = load_Linear cast sd (hidden_prefix i) (ls ! i)"
  by (simp add: load_hidden_def nth_enumerate_eq)

lemma tensor_copy_same:
  "dtype t = dtype p \<Longrightarrow> shape t = shape p \<Longrightarrow> tensor_copy cast p t = t"
  by (cases t) (simp add: tensor_copy_def)

lemma shape_tensor_copy [simp]: "shape (tensor_copy cast p t) = shape p"
  by (simp add: tensor_copy_def)

lemma dtype_tensor_copy [simp]: "dtype (tensor_copy cast p t) = dtype p"
  by (simp add: tensor_copy_def)

lemma load_param_found:
  "map_of sd key = Some (PyTensor t) \<Longrightarrow> shape t = shape p \<Longrightarrow>
   load_param cast sd key p = (tensor_copy cast p t, [], [])"
  by (simp add: load_param_def)

lemma load_Linear_found:
  assumes "map_of sd (prefix @ ''weight'') = Some (PyTensor (weight src))"
    and "shape (weight src) = shape (weight l)"
    and "map_of sd (prefix @ ''bias'') = Some (PyTensor (bias src))"
    and "shape (bias src) = shape (bias l)"
    and "unexpected (map fst sd) prefix [''weight'', ''bias''] = []"
  shows "load_Linear cast sd prefix l = (copy_Linear cast l src, [], [], [])"
  using assms by (simp add: load_Linear_def load_param_found copy_Linear_def)

lemma chain_ok_nth:
  "chain_ok n ls \<Longrightarrow> i < length ls \<Longrightarrow>
   in_features (ls ! i) = (if i = 0 then n else out_features (ls ! (i - 1))) \<and>
   shape (weight (ls ! i)) = [out_features (ls ! i), in_features (ls ! i)] \<and>
   shape (bias (ls ! i)) = [out_features (ls ! i)]"
proof (induction ls arbitrary: n i)
  case Nil
  then show ?case by simp
next
  case (Cons l ls)
  show ?case
  proof (cases i)
    case 0
    with Cons.prems show ?thesis by simp
  next
    case (Suc j)
    with Cons.prems have "chain_ok (out_features l) ls" "j < length ls" by auto
    from Cons.IH [OF this] Suc show ?thesis by (cases j) auto
  qed
qed

lemma copy_Linear_same:
  assumes "in_features l = in_features src" "out_features l = out_features src"
    and "dtype (weight src) = dtype (weight l)" "shape (weight src) = shape (weight l)"
    and "dtype (bias src) = dtype (bias l)" "shape (bias src) = shape (bias l)"
  shows "copy_Linear cast l src = (src :: 'a Linear)"
  using assms by (cases l, cases src) (simp add: copy_Linear_def tensor_copy_same)

lemma dtype_Linear_new [simp]:
  "dtype (weight (Linear_new init a b)) = Float32" "dtype (bias (Linear_new init a b)) = Float32"
  by (simp_all add: Linear_new_def)

lemma features_Linear_new [simp]:
  "in_features (Linear_new init a b) = a" "out_features (Linear_new init a b) = b"
  by (simp_all add: Linear_new_def)

lemma shape_Linear_new [simp]:
  "shape (weight (Linear_new init a b)) = [b, a]" "shape (bias (Linear_new init a b)) = [b]"
  by (simp_all add: Linear_new_def)

section \<open>The state dict of a model loads into a fresh model of its architecture\<close>

lemma shapes_match_hidden:
  assumes "shapes_match a b hs m" "i < length hs"
  shows "in_features (hidden_layers m ! i) = (if i = 0 then a else hs ! (i - 1))"
    and "out_features (hidden_layers m ! i) = hs ! i"
    and "shape (weight (hidden_layers m ! i)) = [hs ! i, if i = 0 then a else hs ! (i - 1)]"
    and "shape (bias (hidden_layers m ! i)) = [hs ! i]"
proof -
  from assms have hs: "hs = map out_features (hidden_layers m)"
    and c: "chain_ok a (hidden_layers m @ [output m])"
    by (simp_all add: shapes_match_def)
  from assms hs have i: "i < length (hidden_layers m)" by simp
  then have "i < length (hidden_layers m @ [output m])" by simp
  from chain_ok_nth [OF c this] i
  have *: "in_features (hidden_layers m ! i)
        = (if i = 0 then a else out_features ((hidden_layers m @ [output m]) ! (i - 1)))"
    "shape (weight (hidden_layers m ! i))
        = [out_features (hidden_layers m ! i), in_features (hidden_layers m ! i)]"
    "shape (bias (hidden_layers m ! i)) = [out_features (hidden_layers m ! i)]"
    by (simp_all add: nth_append)
  from i have **: "i \<noteq> 0 \<Longrightarrow> (hidden_layers m @ [output m]) ! (i - 1) = hidden_layers m ! (i - 1)"
    by (simp add: nth_append)
  from i show o: "out_features (hidden_layers m ! i) = hs ! i" by (simp add: hs)
  from * ** i show f: "in_features (hidden_layers m ! i) = (if i = 0 then a else hs ! (i - 1))"
    by (simp add: hs)
  from * o f show "shape (weight (hidden_layers m ! i)) = [hs ! i, if i = 0 then a else hs ! (i - 1)]"
    by simp
  from * o show "shape (bias (hidden_layers m ! i)) = [hs ! i]" by simp
qed

lemma shapes_match_output:
  assumes "shapes_match a b hs m" "hs \<noteq> []"
  shows "in_features (output m) = last hs"
    and "out_features (output m) = b"
    and "shape (weight (output m)) = [b, last hs]"
    and "shape (bias (output m)) = [b]"
proof -
  from assms have hs: "hs = map out_features (hidden_layers m)"
    and c: "chain_ok a (hidden_layers m @ [output m])"
    and b: "out_features (output m) = b"
    by (simp_all add: shapes_match_def)
  from assms hs have ne: "hidden_layers m \<noteq> []" by auto
  have "length (hidden_layers m) < length (hidden_layers m @ [output m])" by simp
  from chain_ok_nth [OF c this] ne
  have *: "in_features (output m) = out_features (hidden_layers m ! (length (hidden_layers m) - 1))"
    "shape (weight (output m)) = [out_features (output m), in_features (output m)]"
    "shape (bias (output m)) = [out_features (output m)]"
    by (simp_all add: nth_append)
  from ne have l: "last hs = out_features (hidden_layers m ! (length (hidden_layers m) - 1))"
    by (simp add: hs last_map last_conv_nth)
  show "out_features (output m) = b" by (rule b)
  from * l show f: "in_features (output m) = last hs" by simp
  from * b f show "shape (weight (output m)) = [b, last hs]" by simp
  from * b show "shape (bias (output m)) = [b]" by simp
qed

lemma load_state_dict_roundtrip:
  fixes m :: "'a Network"
  assumes sm: "shapes_match a b hs m" and ne: "hs \<noteq> []"
    and net: "Network_init init a b hs = Inr net"
  shows "load_state_dict cast net (entries (state_dict m)) True
           = (copy_Network cast net m, Inr ([], []))"
proof -
  let ?sd = "entries (state_dict m)"
  let ?ls = "hidden_layers m"
  let ?cs = "map2 (copy_Linear cast) (hidden_layers net) ?ls"
  from sm have len: "length ?ls = length hs" by (auto simp: shapes_match_def)
  from net ne have hnet: "hidden_layers net =
      map (\<lambda>i. Linear_new init (if i = 0 then a else hs ! (i - 1)) (hs ! i)) [0..<length hs]"
    and onet: "output net = Linear_new init (last hs) b"
    by (auto simp: Network_init_def)
  have hid: "load_hidden cast ?sd (hidden_layers net) = map (\<lambda>l. (l, [], [], [])) ?cs"
  proof (rule nth_equalityI)
    show "length (load_hidden cast ?sd (hidden_layers net)) = length (map (\<lambda>l. (l, [], [], [])) ?cs)"
      by (simp add: hnet len)
  next
    fix i assume "i < length (load_hidden cast ?sd (hidden_layers net))"
    then have i: "i < length hs" by (simp add: hnet)
    then have i': "i < length ?ls" by (simp add: len)
    let ?l = "Linear_new init (if i = 0 then a else hs ! (i - 1)) (hs ! i)"
    have "load_Linear cast ?sd (hidden_prefix i) ?l = (copy_Linear cast ?l (?ls ! i), [], [], [])"
      by (rule load_Linear_found)
        (simp_all add: map_of_entries lookup_hidden [OF i'] shapes_match_hidden [OF sm i]
          unexpected_hidden)
    then show "load_hidden cast ?sd (hidden_layers net) ! i = map (\<lambda>l. (l, [], [], [])) ?cs ! i"
      using i i' by (auto simp: load_hidden_nth hnet len)
  qed
  let ?o = "Linear_new init (last hs) b"
  have "load_Linear cast ?sd ''output.'' ?o = (copy_Linear cast ?o (output m), [], [], [])"
    by (rule load_Linear_found)
      (simp_all add: map_of_entries lookup_output shapes_match_output [OF sm ne] unexpected_output)
  then have out: "load_Linear cast ?sd ''output.'' (output net)
      = (copy_Linear cast (output net) (output m), [], [], [])"
    by (simp add: onet)
  have se: "size_errors cast net ?sd = []"
    by (simp add: size_errors_def hid out)
  have mk: "missing_keys cast net ?sd = []"
    by (simp add: missing_keys_def hid out)
  have "length (hidden_layers m) \<le> length (hidden_layers net)"
    by (simp add: hnet len)
  then have uk: "unexpected_keys cast net ?sd = []"
    by (simp add: unexpected_keys_def hid out unexpected_root unexpected_list unexpected_dropout)
  have cp: "copied cast net ?sd = copy_Network cast net m"
    by (simp add: copied_def copy_Network_def hid out comp_def)
  show ?thesis
    by (simp add: load_state_dict_def se mk uk cp)
qed

lemma default_dtype_nth:
  assumes "default_dtype m"
  shows "i < length (hidden_layers m) \<Longrightarrow>
           dtype (weight (hidden_layers m ! i)) = Float32 \<and> dtype (bias (hidden_layers m ! i)) = Float32"
    and "dtype (weight (output m)) = Float32 \<and> dtype (bias (output m)) = Float32"
  using assms by (simp_all add: default_dtype_def list_all_iff)

lemma copy_Network_same:
  fixes m :: "'a Network"
  assumes sm: "shapes_match a b hs m" and ne: "hs \<noteq> []"
    and net: "Network_init init a b hs = Inr net" and dt: "default_dtype m"
  shows "copy_Network cast net m = m"
proof -
  let ?ls = "hidden_layers m"
  from sm have len: "length ?ls = length hs" by (auto simp: shapes_match_def)
  from net ne have hnet: "hidden_layers net =
      map (\<lambda>i. Linear_new init (if i = 0 then a else hs ! (i - 1)) (hs ! i)) [0..<length hs]"
    and onet: "output net = Linear_new init (last hs) b"
    by (auto simp: Network_init_def)
  have "map2 (copy_Linear cast) (hidden_layers net) ?ls = ?ls"
  proof (rule nth_equalityI)
    show "length (map2 (copy_Linear cast) (hidden_layers net) ?ls) = length ?ls"
      by (simp add: hnet len)
  next
    fix i assume "i < length (map2 (copy_Linear cast) (hidden_layers net) ?ls)"
    then have i: "i < length hs" by (simp add: hnet)
    then have i': "i < length ?ls" by (simp add: len)
    let ?l = "Linear_new init (if i = 0 then a else hs ! (i - 1)) (hs ! i)"
    have "copy_Linear cast ?l (?ls ! i) = ?ls ! i"
      by (rule copy_Linear_same)
        (simp_all add: shapes_match_hidden [OF sm i] default_dtype_nth(1) [OF dt i'])
    then show "map2 (copy_Linear cast) (hidden_layers net) ?ls ! i = ?ls ! i"
      using i i' by (auto simp: hnet len)
  qed
  moreover have "copy_Linear cast (output net) (output m) = output m"
    unfolding onet
    by (rule copy_Linear_same)
      (simp_all add: shapes_match_output [OF sm ne] default_dtype_nth(2) [OF dt])
  ultimately show ?thesis
    by (cases m) (simp add: copy_Network_def)
qed

section \<open>Saving and loading a checkpoint\<close>

lemma Network_new_ints:
  "hs \<noteq> [] \<Longrightarrow>
   Network_new init (PyInt (int a)) (PyInt (int b)) (PyList (map int hs)) = Network_init init a b hs"
  by (simp add: list_ex_iff comp_def)

lemma checkpoint_fields:
  "subscript (checkpoint m) ''input_size'' = Inr (PyInt 784)"
  "subscript (checkpoint m) ''output_size'' = Inr (PyInt 10)"
  "subscript (checkpoint m) ''hidden_layers''
     = Inr (PyList (map int (map out_features (hidden_layers m))))"
  "subscript (checkpoint m) ''state_dict'' = Inr (PyDict (entries (state_dict m)))"
  by (simp_all add: checkpoint_def pickled_def comp_def)

lemma save_world:
  "model < length (heap s) \<Longrightarrow>
   snd (save model s) = s\<lparr>files := (files s)(''checkpoint.pth'' \<mapsto> checkpoint (heap s ! model))\<rparr>"
  by (simp add: save_def torch_save_def)

lemma load_checkpoint_stored:
  assumes "files s path = Some (checkpoint m)" "hidden_layers m \<noteq> []"
    and "Network_init init 784 10 (map out_features (hidden_layers m)) = Inr net"
  shows "load_checkpoint init cast path s =
     (case load_state_dict cast net (entries (state_dict m)) True of
        (net', Inl e) \<Rightarrow> (Inl e, s\<lparr>heap := heap s @ [net']\<rparr>)
      | (net', Inr keys) \<Rightarrow> (Inr (length (heap s)), s\<lparr>heap := heap s @ [net']\<rparr>))"
proof -
  have "Network_new init (PyInt 784) (PyInt 10) (PyList (map int (map out_features (hidden_layers m))))
      = Inr net"
    using Network_new_ints [of "map out_features (hidden_layers m)" init 784 10] assms by simp
  with assms(1) show ?thesis
    by (simp add: load_checkpoint_def torch_load_def checkpoint_fields)
qed

lemma save_load_copy:
  assumes "model < length (heap s)" "shapes_match 784 10 hs (heap s ! model)" "hs \<noteq> []"
    and net: "Network_init init 784 10 hs = Inr net"
  shows "load_checkpoint init cast ''checkpoint.pth'' (snd (save model s)) =
     (Inr (length (heap s)),
      (snd (save model s))\<lparr>heap := heap s @ [copy_Network cast net (heap s ! model)]\<rparr>)"
proof -
  let ?m = "heap s ! model"
  from assms have hs: "map out_features (hidden_layers ?m) = hs" and ne: "hidden_layers ?m \<noteq> []"
    by (auto simp: shapes_match_def)
  have f: "files (snd (save model s)) ''checkpoint.pth'' = Some (checkpoint ?m)"
    using assms(1) by (simp add: save_world)
  have h: "heap (snd (save model s)) = heap s"
    using assms(1) by (simp add: save_world)
  from load_checkpoint_stored [OF f ne, of init net] net hs
    load_state_dict_roundtrip [OF assms(2) assms(3) net]
  show ?thesis by (simp add: h)
qed

lemma save_load_roundtrip:
  assumes "model < length (heap s)" "shapes_match 784 10 hs (heap s ! model)" "hs \<noteq> []"
    and "default_dtype (heap s ! model)"
  shows "load_checkpoint init cast ''checkpoint.pth'' (snd (save model s)) =
     (Inr (length (heap s)), (snd (save model s))\<lparr>heap := heap s @ [heap s ! model]\<rparr>)"
proof -
  from assms(3) obtain net where net: "Network_init init 784 10 hs = Inr (net :: 'a Network)"
    by (auto simp: Network_init_def)
  from save_load_copy [OF assms(1-3) net] copy_Network_same [OF assms(2) assms(3) net assms(4)]
  show ?thesis by simp
qed

lemma str_0 [simp]: "str 0 = ''0''"
  by (simp add: str.simps [of 0] digit_def)

lemma hidden_prefix_0: "hidden_prefix 0 = ''hidden_layers.0.''"
  by (simp add: hidden_prefix_def)

lemma load_hidden_1: "load_hidden cast sd [l] = [load_Linear cast sd (hidden_prefix 0) l]"
  by (simp add: load_hidden_def)

lemma state_dict_1:
  "state_dict \<lparr>hidden_layers = [l], output = l'\<rparr>
     = linear_items (hidden_prefix 0) l @ linear_items ''output.'' l'"
  by (simp add: state_dict_def)

lemma shapes_match_mnist: "shapes_match 784 10 [2] mnist_model"
  by (simp add: shapes_match_def mnist_model_def Linear_new_def)

section \<open>Loading into a model of another architecture\<close>

lemma load_param_tensor:
  "map_of sd key = Some (PyTensor t) \<Longrightarrow>
   load_param cast sd key p =
     (if shape t \<noteq> shape p then (p, [SizeMismatch key (shape t) (shape p)], [])
      else (tensor_copy cast p t, [], []))"
  by (simp add: load_param_def)

lemma str_1 [simp]: "str (Suc 0) = ''1''"
  by (simp add: str.simps [of "Suc 0"] digit_def)

lemma str_2 [simp]: "str (Suc (Suc 0)) = ''2''"
  by (simp add: str.simps [of "Suc (Suc 0)"] digit_def)

lemma three_layers:
  assumes "shapes_match a b [h0, h1, h2] m"
  obtains l0 l1 l2 lo where "m = \<lparr>hidden_layers = [l0, l1, l2], output = lo\<rparr>"
    "shape (weight l0) = [h0, a]" "shape (bias l0) = [h0]"
    "shape (weight l1) = [h1, h0]" "shape (bias l1) = [h1]"
    "shape (weight l2) = [h2, h1]" "shape (bias l2) = [h2]"
    "shape (weight lo) = [b, h2]" "shape (bias lo) = [b]"
proof -
  from assms obtain l0 l1 l2 where h: "hidden_layers m = [l0, l1, l2]"
    by (auto simp: shapes_match_def map_eq_Cons_conv)
  have m: "m = \<lparr>hidden_layers = [l0, l1, l2], output = output m\<rparr>"
    using h by (cases m) simp
  from assms h have "shape (weight l0) = [h0, a]" "shape (bias l0) = [h0]"
    "shape (weight l1) = [h1, h0]" "shape (bias l1) = [h1]"
    "shape (weight l2) = [h2, h1]" "shape (bias l2) = [h2]"
    "shape (weight (output m)) = [b, h2]" "shape (bias (output m)) = [b]"
    by (auto simp: shapes_match_def)
  with m show ?thesis by (rule that)
qed

lemma load_state_dict_mismatch:
  fixes m1 m2 :: "'a Network"
  assumes "shapes_match 784 10 [512, 256, 128] m1" "shapes_match 784 10 [400, 200, 100] m2"
  shows "snd (load_state_dict cast m2 (entries (state_dict m1)) strict) =
     Inl (RuntimeError
       [SizeMismatch ''hidden_layers.0.weight'' [512, 784] [400, 784],
        SizeMismatch ''hidden_layers.0.bias'' [512] [400],
        SizeMismatch ''hidden_layers.1.weight'' [256, 512] [200, 400],
        SizeMismatch ''hidden_layers.1.bias'' [256] [200],
        SizeMismatch ''hidden_layers.2.weight'' [128, 256] [100, 200],
        SizeMismatch ''hidden_layers.2.bias'' [128] [100],
        SizeMismatch ''output.weight'' [10, 128] [10, 100]])"
proof -
  from assms(1) obtain a0 a1 a2 ao where m1: "m1 = \<lparr>hidden_layers = [a0, a1, a2], output = ao\<rparr>"
    and s1: "shape (weight a0) = [512, 784]" "shape (bias a0) = [512]"
    "shape (weight a1) = [256, 512]" "shape (bias a1) = [256]"
    "shape (weight a2) = [128, 256]" "shape (bias a2) = [128]"
    "shape (weight ao) = [10, 128]" "shape (bias ao) = [10]"
    by (rule three_layers)
  from assms(2) obtain b0 b1 b2 bo where m2: "m2 = \<lparr>hidden_layers = [b0, b1, b2], output = bo\<rparr>"
    and s2: "shape (weight b0) = [400, 784]" "shape (bias b0) = [400]"
    "shape (weight b1) = [200, 400]" "shape (bias b1) = [200]"
    "shape (weight b2) = [100, 200]" "shape (bias b2) = [100]"
    "shape (weight bo) = [10, 100]" "shape (bias bo) = [10]"
    by (rule three_layers)
  have l1: "length (hidden_layers m1) \<le> length (hidden_layers m2)" by (simp add: m1 m2)
  have i: "(0::nat) < length (hidden_layers m1)" "Suc 0 < length (hidden_layers m1)"
    "Suc (Suc 0) < length (hidden_layers m1)" by (simp_all add: m1)
  note lk = lookup_hidden [OF i(1)] lookup_hidden [OF i(2)] lookup_hidden [OF i(3)] lookup_output [of m1]
  have h: "load_hidden cast (entries (state_dict m1)) (hidden_layers m2) =
      [(b0, [SizeMismatch ''hidden_layers.0.weight'' [512, 784] [400, 784],
             SizeMismatch ''hidden_layers.0.bias'' [512] [400]], [], []),
       (b1, [SizeMismatch ''hidden_layers.1.weight'' [256, 512] [200, 400],
             SizeMismatch ''hidden_layers.1.bias'' [256] [200]], [], []),
       (b2, [SizeMismatch ''hidden_layers.2.weight'' [128, 256] [100, 200],
             SizeMismatch ''hidden_layers.2.bias'' [128] [100]], [], [])]"
    using lk
    by (simp add: m2 load_hidden_def load_Linear_def load_param_tensor map_of_entries
        unexpected_hidden s2) (simp add: m1 s1 hidden_prefix_def)
  have "map_of (entries (state_dict m1)) (''output.'' @ ''weight'') = Some (PyTensor (weight ao))"
    "map_of (entries (state_dict m1)) (''output.'' @ ''bias'') = Some (PyTensor (bias ao))"
    using lk by (simp_all add: map_of_entries m1)
  then have o: "load_Linear cast (entries (state_dict m1)) ''output.'' (output m2) =
      (bo\<lparr>bias := tensor_copy cast (bias bo) (bias ao)\<rparr>, [SizeMismatch ''output.weight'' [10, 128] [10, 100]], [], [])"
    by (simp add: load_Linear_def load_param_tensor unexpected_output m2 s1 s2)
  have "missing_keys cast m2 (entries (state_dict m1)) = []"
    by (simp add: missing_keys_def h o)
  moreover have "unexpected_keys cast m2 (entries (state_dict m1)) = []"
    using l1 by (simp add: unexpected_keys_def h o unexpected_root unexpected_list unexpected_dropout)
  moreover have "size_errors cast m2 (entries (state_dict m1)) =
     [SizeMismatch ''hidden_layers.0.weight'' [512, 784] [400, 784],
      SizeMismatch ''hidden_layers.0.bias'' [512] [400],
      SizeMismatch ''hidden_layers.1.weight'' [256, 512] [200, 400],
      SizeMismatch ''hidden_layers.1.bias'' [256] [200],
      SizeMismatch ''hidden_layers.2.weight'' [128, 256] [100, 200],
      SizeMismatch ''hidden_layers.2.bias'' [128] [100],
      SizeMismatch ''output.weight'' [10, 128] [10, 100]]"
    by (simp add: size_errors_def h o)
  ultimately show ?thesis by (simp add: load_state_dict_def)
qed


lemma shapes_match_512: "shapes_match 784 10 [512, 256, 128] model_512"
  by (simp add: shapes_match_def model_512_def Linear_new_def)

lemma shapes_match_400: "shapes_match 784 10 [400, 200, 100] model_400"
  by (simp add: shapes_match_def model_400_def Linear_new_def)

section \<open>A checkpoint in a file\<close>

lemma load_checkpoint_dict:
  assumes "files s path = Some (PyDict kvs)"
    and "map_of kvs ''input_size'' = Some a" "map_of kvs ''output_size'' = Some b"
    and "map_of kvs ''hidden_layers'' = Some c" "Network_new init a b c = Inr net"
    and "map_of kvs ''state_dict'' = Some (PyDict sd)"
  shows "load_checkpoint init cast path s =
     (case load_state_dict cast net sd True of
        (net', Inl e) \<Rightarrow> (Inl e, s\<lparr>heap := heap s @ [net']\<rparr>)
      | (net', Inr keys) \<Rightarrow> (Inr (length (heap s)), s\<lparr>heap := heap s @ [net']\<rparr>))"
  using assms by (simp add: load_checkpoint_def torch_load_def)

lemma load_state_dict_strict:
  "snd (load_state_dict cast net sd True) =
     (if missing_keys cast net sd = [] \<and> unexpected_keys cast net sd = [] \<and> size_errors cast net sd = []
      then Inr ([], [])
      else Inl (RuntimeError
        ((if missing_keys cast net sd \<noteq> [] then [MissingKeys (missing_keys cast net sd)] else [])
         @ (if unexpected_keys cast net sd \<noteq> [] then [UnexpectedKeys (unexpected_keys cast net sd)] else [])
         @ size_errors cast net sd)))"
  by (simp add: load_state_dict_def)

lemma load_checkpoint_fst:
  assumes "files s path = Some (PyDict kvs)"
    and "map_of kvs ''input_size'' = Some a" "map_of kvs ''output_size'' = Some b"
    and "map_of kvs ''hidden_layers'' = Some c" "Network_new init a b c = Inr net"
    and "map_of kvs ''state_dict'' = Some (PyDict sd)"
  shows "fst (load_checkpoint init cast path s) =
     (if missing_keys cast net sd = [] \<and> unexpected_keys cast net sd = [] \<and> size_errors cast net sd = []
      then Inr (length (heap s))
      else Inl (RuntimeError
        ((if missing_keys cast net sd \<noteq> [] then [MissingKeys (missing_keys cast net sd)] else [])
         @ (if unexpected_keys cast net sd \<noteq> [] then [UnexpectedKeys (unexpected_keys cast net sd)] else [])
         @ size_errors cast net sd)))"
proof -
  obtain net' r where l: "load_state_dict cast net sd True = (net', r)" by (cases "load_state_dict cast net sd True")
  with load_state_dict_strict [of cast net sd] have r: "r = (if missing_keys cast net sd = [] \<and> unexpected_keys cast net sd = [] \<and> size_errors cast net sd = []
      then Inr ([], [])
      else Inl (RuntimeError
        ((if missing_keys cast net sd \<noteq> [] then [MissingKeys (missing_keys cast net sd)] else [])
         @ (if unexpected_keys cast net sd \<noteq> [] then [UnexpectedKeys (unexpected_keys cast net sd)] else [])
         @ size_errors cast net sd)))" by simp
  show ?thesis
    unfolding load_checkpoint_dict [OF assms] l
    by (simp add: r)
qed

lemma map_of_remove_key [simp]: "map_of (remove_key key sd) key = None"
  by (induction sd) (auto simp: remove_key_def)

lemma load_Linear_missing:
  "map_of sd (prefix @ nm) = None \<Longrightarrow> nm = ''weight'' \<or> nm = ''bias'' \<Longrightarrow>
   prefix @ nm \<in> set (fst (snd (snd (load_Linear cast sd prefix l))))"
  by (auto simp: load_Linear_def load_param_def split: prod.splits option.splits pyobj.splits)

lemma missing_keys_member:
  assumes "key \<in> set (map fst (state_dict net))" "map_of sd key = None"
  shows "key \<in> set (missing_keys cast net sd)"
  using assms(1)
proof (cases rule: state_dict_key_cases)
  case (1 i nm)
  let ?x = "load_hidden cast sd (hidden_layers net) ! i"
  from 1 have "?x \<in> set (load_hidden cast sd (hidden_layers net))" by simp
  moreover from 1 assms(2) have "key \<in> set (fst (snd (snd ?x)))"
    using load_Linear_missing [of sd "hidden_prefix i" nm cast "hidden_layers net ! i"]
    by (simp add: load_hidden_nth)
  ultimately have "key \<in> set (concat (map (\<lambda>(l, e, m, u). m) (load_hidden cast sd (hidden_layers net))))"
    unfolding set_concat set_map case_prod_beta by blast
  then show ?thesis by (simp add: missing_keys_def)
next
  case 2
  with assms(2) load_Linear_missing [of sd "''output.''" "''weight''" cast "output net"]
    load_Linear_missing [of sd "''output.''" "''bias''" cast "output net"]
  show ?thesis by (auto simp: missing_keys_def)
qed

lemma Network_new_mnist: "Network_new zeros (PyInt 784) (PyInt 10) (PyList [2]) = Inr mnist_model"
  by (simp add: Network_init_def mnist_model_def)

lemma mnist_entries:
  "entries (state_dict mnist_model) =
     [(''hidden_layers.0.weight'', PyTensor (Tensor [2, 784] Float32 (zeros [2, 784]))),
      (''hidden_layers.0.bias'', PyTensor (Tensor [2] Float32 (zeros [2]))),
      (''output.weight'', PyTensor (Tensor [10, 2] Float32 (zeros [10, 2]))),
      (''output.bias'', PyTensor (Tensor [10] Float32 (zeros [10])))]"
  by (simp add: mnist_model_def state_dict_1 linear_items_def entries_def hidden_prefix_0 Linear_new_def)

lemmas eval_load =
  missing_keys_def unexpected_keys_def size_errors_def load_hidden_1 load_Linear_def
  load_param_def hidden_prefix_0 unexpected_def startswith_def



lemma load_mnist_fields:
  "fst (load_checkpoint zeros cast ''checkpoint.pth''
          (stored (PyDict (mnist_fields @ [(''state_dict'', PyDict sd)])))) =
     (if missing_keys cast mnist_model sd = [] \<and> unexpected_keys cast mnist_model sd = []
          \<and> size_errors cast mnist_model sd = []
      then Inr 0
      else Inl (RuntimeError
        ((if missing_keys cast mnist_model sd \<noteq> [] then [MissingKeys (missing_keys cast mnist_model sd)] else [])
         @ (if unexpected_keys cast mnist_model sd \<noteq> []
            then [UnexpectedKeys (unexpected_keys cast mnist_model sd)] else [])
         @ size_errors cast mnist_model sd)))"
proof -
  let ?kvs = "mnist_fields @ [(''state_dict'', PyDict sd)]"
  have f: "files (stored (PyDict ?kvs)) ''checkpoint.pth'' = Some (PyDict ?kvs)"
    by (simp add: stored_def)
  have k: "map_of ?kvs ''input_size'' = Some (PyInt 784)" "map_of ?kvs ''output_size'' = Some (PyInt 10)"
    "map_of ?kvs ''hidden_layers'' = Some (PyList [2])" "map_of ?kvs ''state_dict'' = Some (PyDict sd)"
    by (simp_all add: mnist_fields_def)
  from load_checkpoint_fst [OF f k(1) k(2) k(3) Network_new_mnist k(4)]
  show ?thesis by (simp add: stored_def)
qed

lemma extra_keys:
  "missing_keys cast mnist_model extra_state_dict = []"
  "unexpected_keys cast mnist_model extra_state_dict = [''extra.weight'']"
  "size_errors cast mnist_model extra_state_dict = []"
  unfolding extra_state_dict_def mnist_entries
  by (simp_all add: eval_load mnist_model_def Linear_new_def)

lemma missing_keys_eval:
  "missing_keys cast mnist_model missing_state_dict = [''output.bias'']"
  "unexpected_keys cast mnist_model missing_state_dict = []"
  "size_errors cast mnist_model missing_state_dict = []"
  unfolding missing_state_dict_def mnist_entries remove_key_def
  by (simp_all add: eval_load mnist_model_def Linear_new_def)

section \<open>What a load leaves behind\<close>

lemma load_checkpoint_frame:
  "files (snd (load_checkpoint init cast path s)) = files s \<and>
   take (length (heap s)) (heap (snd (load_checkpoint init cast path s))) = heap s"
  by (simp add: load_checkpoint_def torch_load_def
      split: sum.splits prod.splits pyobj.splits option.splits)

lemma load_param_loaded:
  "load_param cast sd key p = (p', [], []) \<Longrightarrow> loaded_from cast sd (key, p')"
  by (auto simp: load_param_def loaded_from_def tensor_copy_def
      split: option.splits pyobj.splits if_splits)

lemma load_Linear_loaded:
  assumes "fst (snd (load_Linear cast sd prefix l)) = []"
    and "fst (snd (snd (load_Linear cast sd prefix l))) = []"
  shows "list_all (loaded_from cast sd) (linear_items prefix (fst (load_Linear cast sd prefix l)))"
proof -
  obtain w e1 m1 where w: "load_param cast sd (prefix @ ''weight'') (weight l) = (w, e1, m1)"
    by (cases "load_param cast sd (prefix @ ''weight'') (weight l)")
  obtain b e2 m2 where b: "load_param cast sd (prefix @ ''bias'') (bias l) = (b, e2, m2)"
    by (cases "load_param cast sd (prefix @ ''bias'') (bias l)")
  from assms w b have "e1 = []" "m1 = []" "e2 = []" "m2 = []"
    by (simp_all add: load_Linear_def)
  with w b load_param_loaded [of cast sd "prefix @ ''weight''" "weight l" w]
    load_param_loaded [of cast sd "prefix @ ''bias''" "bias l" b]
  show ?thesis by (simp add: load_Linear_def linear_items_def)
qed

lemma hidden_loaded:
  assumes "concat (map (\<lambda>(l, e, m, u). e)
             (map (\<lambda>(i, l). load_Linear cast sd (hidden_prefix i) l) (enumerate k ls))) = []"
    and "concat (map (\<lambda>(l, e, m, u). m)
             (map (\<lambda>(i, l). load_Linear cast sd (hidden_prefix i) l) (enumerate k ls))) = []"
  shows "list_all (loaded_from cast sd)
           (hidden_items k
              (map fst (map (\<lambda>(i, l). load_Linear cast sd (hidden_prefix i) l) (enumerate k ls))))"
  using assms
proof (induction ls arbitrary: k)
  case Nil
  then show ?case by simp
next
  case (Cons l ls)
  from Cons.prems have p:
    "fst (snd (load_Linear cast sd (hidden_prefix k) l)) = []"
    "fst (snd (snd (load_Linear cast sd (hidden_prefix k) l))) = []"
    "concat (map (\<lambda>(l, e, m, u). e)
       (map (\<lambda>(i, l). load_Linear cast sd (hidden_prefix i) l) (enumerate (Suc k) ls))) = []"
    "concat (map (\<lambda>(l, e, m, u). m)
       (map (\<lambda>(i, l). load_Linear cast sd (hidden_prefix i) l) (enumerate (Suc k) ls))) = []"
    by (simp_all add: case_prod_beta)
  from Cons.IH [OF p(3) p(4)] load_Linear_loaded [OF p(1) p(2)]
  show ?case by simp
qed

lemma copied_loaded:
  assumes "missing_keys cast net sd = []" "size_errors cast net sd = []"
  shows "list_all (loaded_from cast sd) (state_dict (copied cast net sd))"
proof -
  from assms have
    "concat (map (\<lambda>(l, e, m, u). e)
       (map (\<lambda>(i, l). load_Linear cast sd (hidden_prefix i) l) (enumerate 0 (hidden_layers net)))) = []"
    "concat (map (\<lambda>(l, e, m, u). m)
       (map (\<lambda>(i, l). load_Linear cast sd (hidden_prefix i) l) (enumerate 0 (hidden_layers net)))) = []"
    "fst (snd (load_Linear cast sd ''output.'' (output net))) = []"
    "fst (snd (snd (load_Linear cast sd ''output.'' (output net)))) = []"
    unfolding missing_keys_def size_errors_def load_hidden_def by simp_all
  with hidden_loaded [of cast sd 0 "hidden_layers net"]
    load_Linear_loaded [of cast sd "''output.''" "output net"]
  show ?thesis
    unfolding state_dict_alt copied_def load_hidden_def by simp
qed

subsection \<open>Copying keeps the sizes, the shapes and the types of a model\<close>

lemma load_param_keeps:
  "shape (fst (load_param cast sd key p)) = shape p"
  "dtype (fst (load_param cast sd key p)) = dtype p"
  by (simp_all add: load_param_def split: option.splits pyobj.splits)

lemma load_Linear_keeps:
  "in_features (fst (load_Linear cast sd prefix l)) = in_features l"
  "out_features (fst (load_Linear cast sd prefix l)) = out_features l"
  "shape (weight (fst (load_Linear cast sd prefix l))) = shape (weight l)"
  "shape (bias (fst (load_Linear cast sd prefix l))) = shape (bias l)"
  "dtype (weight (fst (load_Linear cast sd prefix l))) = dtype (weight l)"
  "dtype (bias (fst (load_Linear cast sd prefix l))) = dtype (bias l)"
  using load_param_keeps [of cast sd "prefix @ ''weight''" "weight l"]
    load_param_keeps [of cast sd "prefix @ ''bias''" "bias l"]
  by (auto simp: load_Linear_def split: prod.splits)

lemma chain_ok_keeps:
  assumes "length ls' = length ls"
    and "\<And>i. i < length ls \<Longrightarrow>
           in_features (ls' ! i) = in_features (ls ! i) \<and>
           out_features (ls' ! i) = out_features (ls ! i) \<and>
           shape (weight (ls' ! i)) = shape (weight (ls ! i)) \<and>
           shape (bias (ls' ! i)) = shape (bias (ls ! i))"
  shows "chain_ok n ls' = chain_ok n ls"
  using assms
proof (induction ls arbitrary: n ls')
  case Nil
  then show ?case by simp
next
  case (Cons l ls)
  from Cons.prems(1) obtain l' ls'' where ls': "ls' = l' # ls''" and len: "length ls'' = length ls"
    by (cases ls') auto
  from Cons.prems(2) [of 0] ls' have h: "in_features l' = in_features l"
    "out_features l' = out_features l" "shape (weight l') = shape (weight l)"
    "shape (bias l') = shape (bias l)" by simp_all
  have "chain_ok (out_features l) ls'' = chain_ok (out_features l) ls"
  proof (rule Cons.IH [OF len])
    fix i assume "i < length ls"
    with Cons.prems(2) [of "Suc i"] ls' show
      "in_features (ls'' ! i) = in_features (ls ! i) \<and>
       out_features (ls'' ! i) = out_features (ls ! i) \<and>
       shape (weight (ls'' ! i)) = shape (weight (ls ! i)) \<and>
       shape (bias (ls'' ! i)) = shape (bias (ls ! i))" by simp
  qed
  with h ls' show ?case by simp
qed

lemma copied_nth:
  "i < length (hidden_layers net) \<Longrightarrow>
   hidden_layers (copied cast net sd) ! i
     = fst (load_Linear cast sd (hidden_prefix i) (hidden_layers net ! i))"
  by (simp add: copied_def load_hidden_nth)

lemma copied_shapes_match:
  assumes "shapes_match a b hs net"
  shows "shapes_match a b hs (copied cast net sd)"
proof -
  let ?c = "copied cast net sd"
  have len: "length (hidden_layers ?c) = length (hidden_layers net)" by (simp add: copied_def)
  have out: "output ?c = fst (load_Linear cast sd ''output.'' (output net))"
    by (simp add: copied_def)
  have "map out_features (hidden_layers ?c) = map out_features (hidden_layers net)"
    by (rule nth_equalityI) (simp_all add: len copied_nth load_Linear_keeps)
  moreover have "chain_ok a (hidden_layers ?c @ [output ?c])
      = chain_ok a (hidden_layers net @ [output net])"
  proof (rule chain_ok_keeps)
    show "length (hidden_layers ?c @ [output ?c]) = length (hidden_layers net @ [output net])"
      by (simp add: len)
  next
    fix i assume "i < length (hidden_layers net @ [output net])"
    then have "i < length (hidden_layers net) \<or> i = length (hidden_layers net)" by auto
    then show "in_features ((hidden_layers ?c @ [output ?c]) ! i)
          = in_features ((hidden_layers net @ [output net]) ! i) \<and>
        out_features ((hidden_layers ?c @ [output ?c]) ! i)
          = out_features ((hidden_layers net @ [output net]) ! i) \<and>
        shape (weight ((hidden_layers ?c @ [output ?c]) ! i))
          = shape (weight ((hidden_layers net @ [output net]) ! i)) \<and>
        shape (bias ((hidden_layers ?c @ [output ?c]) ! i))
          = shape (bias ((hidden_layers net @ [output net]) ! i))"
      by (auto simp: nth_append len copied_nth out load_Linear_keeps)
  qed
  moreover have "out_features (output ?c) = out_features (output net)"
    by (simp add: out load_Linear_keeps)
  ultimately show ?thesis using assms by (simp add: shapes_match_def)
qed

lemma copied_default_dtype:
  assumes "default_dtype net"
  shows "default_dtype (copied cast net sd)"
proof -
  let ?c = "copied cast net sd"
  have "dtype (weight l) = Float32 \<and> dtype (bias l) = Float32"
    if "l \<in> set (hidden_layers ?c)" for l
  proof -
    from that obtain i where i: "i < length (hidden_layers net)" and l: "l = hidden_layers ?c ! i"
      by (auto simp: in_set_conv_nth copied_def)
    from default_dtype_nth(1) [OF assms i] show ?thesis
      by (simp add: l copied_nth [OF i] load_Linear_keeps)
  qed
  moreover have "dtype (weight (output ?c)) = Float32 \<and> dtype (bias (output ?c)) = Float32"
    using default_dtype_nth(2) [OF assms] by (simp add: copied_def load_Linear_keeps)
  ultimately show ?thesis by (auto simp: default_dtype_def list_all_iff)
qed

lemma chain_ok_nthI:
  assumes "\<And>i. i < length ls \<Longrightarrow>
     in_features (ls ! i) = (if i = 0 then n else out_features (ls ! (i - 1))) \<and>
     shape (weight (ls ! i)) = [out_features (ls ! i), in_features (ls ! i)] \<and>
     shape (bias (ls ! i)) = [out_features (ls ! i)]"
  shows "chain_ok n ls"
  using assms
proof (induction ls arbitrary: n)
  case Nil
  then show ?case by simp
next
  case (Cons l ls)
  from Cons.prems [of 0] have h: "in_features l = n"
    "shape (weight l) = [out_features l, in_features l]" "shape (bias l) = [out_features l]"
    by simp_all
  have "chain_ok (out_features l) ls"
  proof (rule Cons.IH)
    fix i assume i: "i < length ls"
    with Cons.prems [of "Suc i"] show
      "in_features (ls ! i) = (if i = 0 then out_features l else out_features (ls ! (i - 1))) \<and>
       shape (weight (ls ! i)) = [out_features (ls ! i), in_features (ls ! i)] \<and>
       shape (bias (ls ! i)) = [out_features (ls ! i)]"
      by (cases i) simp_all
  qed
  with h show ?case by simp
qed

lemma Network_init_shapes_match:
  assumes "Network_init init a b hs = Inr net"
  shows "shapes_match a b hs net \<and> default_dtype net"
proof -
  from assms have ne: "hs \<noteq> []" by (auto simp: Network_init_def split: if_splits)
  with assms have hnet: "hidden_layers net =
      map (\<lambda>i. Linear_new init (if i = 0 then a else hs ! (i - 1)) (hs ! i)) [0..<length hs]"
    and onet: "output net = Linear_new init (last hs) b"
    by (auto simp: Network_init_def)
  have o: "map out_features (hidden_layers net) = hs"
    by (rule nth_equalityI) (simp_all add: hnet)
  have "chain_ok a (hidden_layers net @ [output net])"
  proof (rule chain_ok_nthI)
    fix i assume "i < length (hidden_layers net @ [output net])"
    then have "i < length hs \<or> i = length hs" by (auto simp: hnet)
    then show "in_features ((hidden_layers net @ [output net]) ! i) =
         (if i = 0 then a else out_features ((hidden_layers net @ [output net]) ! (i - 1))) \<and>
       shape (weight ((hidden_layers net @ [output net]) ! i)) =
         [out_features ((hidden_layers net @ [output net]) ! i),
          in_features ((hidden_layers net @ [output net]) ! i)] \<and>
       shape (bias ((hidden_layers net @ [output net]) ! i)) =
         [out_features ((hidden_layers net @ [output net]) ! i)]"
    proof
      assume i: "i < length hs"
      then show ?thesis by (auto simp: nth_append hnet)
    next
      assume i: "i = length hs"
      with ne show ?thesis by (auto simp: nth_append hnet onet last_conv_nth)
    qed
  qed
  moreover have "default_dtype net"
    by (auto simp: default_dtype_def list_all_iff hnet onet)
  ultimately show ?thesis using o by (simp add: shapes_match_def onet)
qed

lemma Network_new_Inr:
  assumes "Network_new init x y z = Inr net"
  shows "\<exists>a b hs. x = PyInt a \<and> y = PyInt b \<and> z = PyList hs \<and>
           Network_init init (nat a) (nat b) (map nat hs) = Inr net"
  using assms by (cases x; cases y; cases z) (auto split: if_splits)

subsection \<open>A missing key or an entry of another shape makes the load fail\<close>

lemma hidden_items_member:
  "(key, p) \<in> set (hidden_items k ls) \<Longrightarrow>
   \<exists>j < length ls. (key = hidden_prefix (k + j) @ ''weight'' \<and> p = weight (ls ! j)) \<or>
                   (key = hidden_prefix (k + j) @ ''bias'' \<and> p = bias (ls ! j))"
proof (induction ls arbitrary: k)
  case Nil
  then show ?case by simp
next
  case (Cons l ls)
  from Cons.prems consider "(key, p) \<in> set (linear_items (hidden_prefix k) l)"
    | "(key, p) \<in> set (hidden_items (Suc k) ls)" by auto
  then show ?case
  proof cases
    case 1
    then have "(key = hidden_prefix (k + 0) @ ''weight'' \<and> p = weight ((l # ls) ! 0)) \<or>
               (key = hidden_prefix (k + 0) @ ''bias'' \<and> p = bias ((l # ls) ! 0))"
      by (auto simp: linear_items_def)
    then show ?thesis by (intro exI [of _ 0]) simp
  next
    case 2
    from Cons.IH [OF this] obtain j where "j < length ls"
      "(key = hidden_prefix (Suc k + j) @ ''weight'' \<and> p = weight (ls ! j)) \<or>
       (key = hidden_prefix (Suc k + j) @ ''bias'' \<and> p = bias (ls ! j))" by blast
    then show ?thesis by (intro exI [of _ "Suc j"]) simp
  qed
qed

lemma load_Linear_mismatch:
  assumes "map_of sd (prefix @ ''weight'') = Some (PyTensor t) \<and> shape t \<noteq> shape (weight l) \<or>
           map_of sd (prefix @ ''bias'') = Some (PyTensor t) \<and> shape t \<noteq> shape (bias l)"
  shows "fst (snd (load_Linear cast sd prefix l)) \<noteq> []"
  using assms
  by (auto simp: load_Linear_def load_param_def split: prod.splits option.splits pyobj.splits)

lemma mismatch_size_errors:
  assumes "(key, p) \<in> set (state_dict net)" "map_of sd key = Some (PyTensor t)"
    and "shape t \<noteq> shape p"
  shows "size_errors cast net sd \<noteq> []"
proof -
  from assms(1) consider "(key, p) \<in> set (hidden_items 0 (hidden_layers net))"
    | "(key, p) \<in> set (linear_items ''output.'' (output net))"
    by (auto simp: state_dict_alt)
  then show ?thesis
  proof cases
    case 1
    from hidden_items_member [OF this] obtain j where j: "j < length (hidden_layers net)"
      and k: "(key = hidden_prefix j @ ''weight'' \<and> p = weight (hidden_layers net ! j)) \<or>
              (key = hidden_prefix j @ ''bias'' \<and> p = bias (hidden_layers net ! j))" by auto
    let ?x = "load_hidden cast sd (hidden_layers net) ! j"
    from j have "?x \<in> set (load_hidden cast sd (hidden_layers net))" by simp
    moreover from k assms(2,3) have "fst (snd ?x) \<noteq> []"
      unfolding load_hidden_nth [OF j] by (intro load_Linear_mismatch [of _ _ t]) auto
    ultimately have "concat (map (\<lambda>(l, e, m, u). e) (load_hidden cast sd (hidden_layers net))) \<noteq> []"
      unfolding concat_eq_Nil_conv set_map case_prod_beta by blast
    then show ?thesis by (simp add: size_errors_def)
  next
    case 2
    with assms(2,3) have "fst (snd (load_Linear cast sd ''output.'' (output net))) \<noteq> []"
      by (intro load_Linear_mismatch [of _ _ t]) (auto simp: linear_items_def)
    then show ?thesis by (simp add: size_errors_def)
  qed
qed

lemma missing_or_mismatched_fails:
  assumes "list_ex (missing_or_mismatched sd) (state_dict net)"
  shows "missing_keys cast net sd \<noteq> [] \<or> size_errors cast net sd \<noteq> []"
proof -
  from assms obtain key p where kp: "(key, p) \<in> set (state_dict net)"
    and m: "missing_or_mismatched sd (key, p)"
    by (auto simp: list_ex_iff)
  show ?thesis
  proof (cases "map_of sd key")
    case None
    from kp have "key \<in> set (map fst (state_dict net))" by force
    from missing_keys_member [OF this None, where cast = cast] show ?thesis by auto
  next
    case (Some v)
    with m obtain t where "v = PyTensor t" "shape t \<noteq> shape p"
      by (cases v) (auto simp: missing_or_mismatched_def)
    with Some mismatch_size_errors [OF kp, where cast = cast] show ?thesis by auto
  qed
qed

subsection \<open>The outcome of a load\<close>

lemma subscript_Inr:
  "subscript obj key = Inr v \<Longrightarrow> \<exists>kvs. obj = PyDict kvs \<and> map_of kvs key = Some v"
  by (cases obj) (auto split: option.splits)

lemma load_checkpoint_outcome:
  assumes l: "load_checkpoint init cast path s = (r, s')"
    and f: "files s path = Some (PyDict kvs)"
    and k: "map_of kvs ''input_size'' = Some a" "map_of kvs ''output_size'' = Some b"
      "map_of kvs ''hidden_layers'' = Some c" "map_of kvs ''state_dict'' = Some (PyDict sd)"
    and n: "Network_new init a b c = Inr net"
  shows "r = (if missing_keys cast net sd = [] \<and> unexpected_keys cast net sd = []
                 \<and> size_errors cast net sd = []
              then Inr (length (heap s))
              else Inl (RuntimeError
                ((if missing_keys cast net sd \<noteq> [] then [MissingKeys (missing_keys cast net sd)]
                  else [])
                 @ (if unexpected_keys cast net sd \<noteq> []
                    then [UnexpectedKeys (unexpected_keys cast net sd)] else [])
                 @ size_errors cast net sd)))"
    and "s' = s\<lparr>heap := heap s @ [copied cast net sd]\<rparr>"
  using l unfolding load_checkpoint_dict [OF f k(1) k(2) k(3) n k(4)]
  by (auto simp: load_state_dict_def Let_def split: if_splits)

lemma load_checkpoint_success:
  assumes "load_checkpoint init cast path s = (Inr addr, s')"
  shows "addr = length (heap s) \<and> length (heap s') = Suc addr \<and>
     (\<exists>kvs a b hs sd.
        files s path = Some (PyDict kvs) \<and>
        map_of kvs ''input_size'' = Some (PyInt a) \<and>
        map_of kvs ''output_size'' = Some (PyInt b) \<and>
        map_of kvs ''hidden_layers'' = Some (PyList hs) \<and>
        map_of kvs ''state_dict'' = Some (PyDict sd) \<and>
        shapes_match (nat a) (nat b) (map nat hs) (heap s' ! addr) \<and>
        default_dtype (heap s' ! addr) \<and>
        list_all (loaded_from cast sd) (state_dict (heap s' ! addr)))"
proof -
  from assms obtain ckpt xa xb xc net sd where
    f: "files s path = Some ckpt"
    and x: "subscript ckpt ''input_size'' = Inr xa" "subscript ckpt ''output_size'' = Inr xb"
      "subscript ckpt ''hidden_layers'' = Inr xc"
    and n: "Network_new init xa xb xc = Inr net"
    and sd: "subscript ckpt ''state_dict'' = Inr (PyDict sd)"
    by (auto simp: load_checkpoint_def torch_load_def
        split: sum.splits prod.splits pyobj.splits option.splits)
  from subscript_Inr [OF sd] obtain kvs where c: "ckpt = PyDict kvs"
    and ksd: "map_of kvs ''state_dict'' = Some (PyDict sd)" by blast
  from x c have k: "map_of kvs ''input_size'' = Some xa" "map_of kvs ''output_size'' = Some xb"
    "map_of kvs ''hidden_layers'' = Some xc"
    by (auto split: option.splits)
  from Network_new_Inr [OF n] obtain a b hs where v: "xa = PyInt a" "xb = PyInt b" "xc = PyList hs"
    and ni: "Network_init init (nat a) (nat b) (map nat hs) = Inr net" by blast
  from f c have f': "files s path = Some (PyDict kvs)" by simp
  note o = load_checkpoint_outcome [OF assms f' k ksd n]
  from o(1) have ok: "missing_keys cast net sd = []" "size_errors cast net sd = []"
    and addr: "addr = length (heap s)"
    by (auto split: if_splits)
  from Network_init_shapes_match [OF ni]
  have "shapes_match (nat a) (nat b) (map nat hs) (copied cast net sd)"
    "default_dtype (copied cast net sd)"
    by (simp_all add: copied_shapes_match copied_default_dtype)
  with copied_loaded [OF ok] o(2) addr f' k ksd v show ?thesis
    by (auto simp: nth_append)
qed

lemma small_load_fails:
  "fst (load_checkpoint zeros cast ''checkpoint.pth'' (snd (save 0 (world_of small_model)))) =
     Inl (RuntimeError [SizeMismatch ''hidden_layers.0.weight'' [2, 3] [2, 784],
                        SizeMismatch ''output.weight'' [2, 2] [10, 2],
                        SizeMismatch ''output.bias'' [2] [10]])"
proof -
  have n: "Network_init zeros 784 10 (map out_features (hidden_layers small_model))
      = Inr \<lparr>hidden_layers = [Linear_new zeros 784 2], output = Linear_new zeros 2 10\<rparr>"
    by (simp add: Network_init_def small_model_def Linear_new_def)
  have f: "files (snd (save 0 (world_of small_model))) ''checkpoint.pth'' = Some (checkpoint small_model)"
    by (simp add: save_world world_of_def)
  have ne: "hidden_layers small_model \<noteq> []" by (simp add: small_model_def)
  have "snd (load_state_dict cast \<lparr>hidden_layers = [Linear_new zeros 784 2], output = Linear_new zeros 2 10\<rparr>
          (entries (state_dict small_model)) True) =
     Inl (RuntimeError [SizeMismatch ''hidden_layers.0.weight'' [2, 3] [2, 784],
                        SizeMismatch ''output.weight'' [2, 2] [10, 2],
                        SizeMismatch ''output.bias'' [2] [10]])"
    by (simp add: load_state_dict_def missing_keys_def unexpected_keys_def size_errors_def
        load_hidden_1 load_Linear_def load_param_def small_model_def state_dict_1 linear_items_def
        entries_def hidden_prefix_0 Linear_new_def unexpected_def startswith_def)
  with load_checkpoint_stored [OF f ne n, where cast = cast] show ?thesis
    by (simp split: prod.splits sum.splits)
qed

lemma save_idem: "snd (save model (snd (save model s))) = snd (save model s)"
  by (simp add: save_def torch_save_def)

lemma shapes_match_small: "shapes_match 3 2 [2] small_model"
  by (simp add: shapes_match_def small_model_def Linear_new_def)

lemma save_load_loaded:
  fixes s :: "'a world"
  assumes "model < length (heap s)" "shapes_match 784 10 hs (heap s ! model)" "hs \<noteq> []"
    and net: "Network_init init 784 10 hs = Inr net"
  shows "list_all (loaded_from cast (entries (state_dict (heap s ! model))))
           (state_dict (copy_Network cast net (heap s ! model)))"
proof -
  let ?m = "heap s ! model"
  let ?s1 = "snd (save model s)"
  let ?c = "copy_Network cast net ?m"
  have f: "files ?s1 ''checkpoint.pth'' = Some (checkpoint ?m)" and h: "heap ?s1 = heap s"
    using assms(1) by (simp_all add: save_world)
  from load_checkpoint_success [OF save_load_copy [OF assms(1-3) net, of cast]]
  obtain kvs sd where k: "files ?s1 ''checkpoint.pth'' = Some (PyDict kvs)"
    and sd: "map_of kvs ''state_dict'' = Some (PyDict sd)"
    and ld: "list_all (loaded_from cast sd)
               (state_dict (heap (?s1\<lparr>heap := heap s @ [?c]\<rparr>) ! length (heap s)))"
    by blast
  from f k have "checkpoint ?m = PyDict kvs" by simp
  with checkpoint_fields(4) [of ?m] sd have "sd = entries (state_dict ?m)"
    by (simp split: option.splits)
  with ld show ?thesis by simp
qed

section \<open>The checkpoint that save writes\<close>

lemma shape_invariant_state_dict:
  assumes "shapes_match a b hs m" "hs \<noteq> []"
  shows "shape_invariant a b hs (entries (state_dict m))"
proof -
  from assms(1) have len: "length (hidden_layers m) = length hs" by (auto simp: shapes_match_def)
  have "shape_at (entries (state_dict m)) (hidden_prefix i @ ''weight'')
          = Some [hs ! i, if i = 0 then a else hs ! (i - 1)] \<and>
        shape_at (entries (state_dict m)) (hidden_prefix i @ ''bias'') = Some [hs ! i]"
    if "i < length hs" for i
  proof -
    from that len have i: "i < length (hidden_layers m)" by simp
    show ?thesis
      by (simp add: shape_at_def map_of_entries lookup_hidden [OF i]
          shapes_match_hidden [OF assms(1) that])
  qed
  moreover have "shape_at (entries (state_dict m)) ''output.weight'' = Some [b, last hs]"
    by (simp add: shape_at_def map_of_entries lookup_output shapes_match_output [OF assms])
  ultimately show ?thesis by (simp add: shape_invariant_def list_all_iff)
qed

lemma checkpoint_invariant_saved:
  assumes "shapes_match 784 10 hs m" "hs \<noteq> []"
  shows "checkpoint_invariant (checkpoint m)"
proof -
  from assms have hs: "map out_features (hidden_layers m) = hs" by (simp add: shapes_match_def)
  have "map nat (map (\<lambda>each. int (out_features each)) (hidden_layers m)) = hs"
    using hs by (simp add: comp_def)
  with shape_invariant_state_dict [OF assms] assms(2) hs show ?thesis
    by (auto simp: checkpoint_def pickled_def list_all_iff)
qed

lemma load_Linear_no_missing:
  "map_of sd (prefix @ ''weight'') = Some (PyTensor w) \<Longrightarrow>
   map_of sd (prefix @ ''bias'') = Some (PyTensor b) \<Longrightarrow>
   fst (snd (snd (load_Linear cast sd prefix l))) = []"
  by (simp add: load_Linear_def load_param_tensor)

lemma missing_keys_saved:
  assumes "length (hidden_layers net) = length (hidden_layers m)"
  shows "missing_keys cast net (entries (state_dict m)) = []"
proof -
  let ?sd = "entries (state_dict m)"
  have "fst (snd (snd x)) = []" if "x \<in> set (load_hidden cast ?sd (hidden_layers net))" for x
  proof -
    from that obtain i where i: "i < length (hidden_layers net)"
      and x: "x = load_hidden cast ?sd (hidden_layers net) ! i"
      by (auto simp: in_set_conv_nth)
    from i assms have "i < length (hidden_layers m)" by simp
    from lookup_hidden [OF this] show ?thesis
      unfolding x load_hidden_nth [OF i]
      by (intro load_Linear_no_missing) (simp_all add: map_of_entries)
  qed
  moreover have "fst (snd (snd (load_Linear cast ?sd ''output.'' (output net)))) = []"
    by (rule load_Linear_no_missing) (simp_all add: map_of_entries lookup_output)
  ultimately show ?thesis
    by (auto simp: missing_keys_def)
qed

lemma load_Linear_sizes:
  "map_of sd (prefix @ ''weight'') = Some (PyTensor w) \<Longrightarrow>
   map_of sd (prefix @ ''bias'') = Some (PyTensor b) \<Longrightarrow>
   list_all is_size_mismatch (fst (snd (load_Linear cast sd prefix l)))"
  by (simp add: load_Linear_def load_param_tensor)

lemma size_errors_saved:
  assumes "length (hidden_layers net) = length (hidden_layers m)"
  shows "list_all is_size_mismatch (size_errors cast net (entries (state_dict m)))"
proof -
  let ?sd = "entries (state_dict m)"
  have "list_all is_size_mismatch (fst (snd x))"
    if "x \<in> set (load_hidden cast ?sd (hidden_layers net))" for x
  proof -
    from that obtain i where i: "i < length (hidden_layers net)"
      and x: "x = load_hidden cast ?sd (hidden_layers net) ! i"
      by (auto simp: in_set_conv_nth)
    from i assms have "i < length (hidden_layers m)" by simp
    from lookup_hidden [OF this] show ?thesis
      unfolding x load_hidden_nth [OF i]
      by (intro load_Linear_sizes) (simp_all add: map_of_entries)
  qed
  moreover have "list_all is_size_mismatch (fst (snd (load_Linear cast ?sd ''output.'' (output net))))"
    by (rule load_Linear_sizes) (simp_all add: map_of_entries lookup_output)
  ultimately show ?thesis
    by (auto simp: size_errors_def list_all_iff)
qed

lemma load_Linear_unexpected:
  "snd (snd (snd (load_Linear cast sd prefix l))) = unexpected (map fst sd) prefix [''weight'', ''bias'']"
  by (simp add: load_Linear_def split: prod.splits)

lemma unexpected_keys_saved:
  assumes "length (hidden_layers m) \<le> length (hidden_layers net)"
  shows "unexpected_keys cast net (entries (state_dict m)) = []"
proof -
  let ?sd = "entries (state_dict m)"
  have "snd (snd (snd x)) = []" if "x \<in> set (load_hidden cast ?sd (hidden_layers net))" for x
  proof -
    from that obtain i where i: "i < length (hidden_layers net)"
      and x: "x = load_hidden cast ?sd (hidden_layers net) ! i"
      by (auto simp: in_set_conv_nth)
    show ?thesis
      unfolding x load_hidden_nth [OF i] load_Linear_unexpected
      by (simp add: unexpected_hidden)
  qed
  with assms show ?thesis
    by (auto simp: unexpected_keys_def unexpected_root unexpected_list unexpected_dropout
        load_Linear_unexpected unexpected_output)
qed

lemma Network_init_length:
  "Network_init init a b hs = Inr net \<Longrightarrow> length (hidden_layers net) = length hs"
  by (auto simp: Network_init_def split: if_splits)

lemma not_invariant_small: "\<not> checkpoint_invariant (checkpoint small_model)"
  by (simp add: checkpoint_def pickled_def shape_invariant_def shape_at_def small_model_def
      state_dict_1 linear_items_def entries_def hidden_prefix_0 Linear_new_def)

subsection \<open>A file that holds only a state dict\<close>

lemma state_dict_no_input_size: "map_of (entries (state_dict m)) ''input_size'' = None"
proof -
  have "''input_size'' \<notin> set (map fst (state_dict m))"
    unfolding state_dict_keys by (auto simp: hidden_prefix_def)
  then have "map_of (state_dict m) ''input_size'' = None"
    by (simp add: map_of_eq_None_iff)
  then show ?thesis by (simp add: map_of_entries)
qed

lemma save_state_dict_world:
  "model < length (heap s) \<Longrightarrow>
   snd (save_state_dict model s)
     = s\<lparr>files := (files s)(''checkpoint.pth'' \<mapsto> pickled (state_dict (heap s ! model)))\<rparr>"
  by (simp add: save_state_dict_def torch_save_def)

section \<open>The concrete models\<close>

lemma Network_init_mnist: "Network_init zeros 784 10 [2] = Inr mnist_model"
  by (simp add: Network_init_def mnist_model_def)

lemma zeros_2: "zeros [2] = [Fin 0, Fin 0]"
  by (simp add: zeros_def numeral_2_eq_2)

lemma shapes_match_trained: "shapes_match 784 10 [2] trained_model"
  by (simp add: shapes_match_def trained_model_def)

lemma default_dtype_trained: "default_dtype trained_model"
  by (simp add: default_dtype_def trained_model_def)

lemma trained_not_fresh: "trained_model \<noteq> mnist_model"
proof -
  have "bias (hd (hidden_layers trained_model)) \<noteq> bias (hd (hidden_layers mnist_model))"
    by (simp add: trained_model_def mnist_model_def Linear_new_def zeros_2)
  then show ?thesis by auto
qed

lemma shapes_match_nonfinite: "shapes_match 784 10 [2] nonfinite_model"
  by (simp add: shapes_match_def nonfinite_model_def)

lemma default_dtype_nonfinite: "default_dtype nonfinite_model"
  by (simp add: default_dtype_def nonfinite_model_def)

lemma shapes_match_double: "shapes_match 784 10 [2] double_model"
  by (simp add: shapes_match_def double_model_def)

lemma shapes_match_nonfinite_small: "shapes_match 3 2 [2] nonfinite_small_model"
  by (simp add: shapes_match_def nonfinite_small_model_def)

lemma bitlen_8: "bitlen 8 = 4"
  by (simp add: bitlen.simps)

lemma bitlen_16777217: "bitlen 16777217 = 25"
  by (simp add: bitlen.simps)

lemma float_cast_16777217: "float_cast Float64 Float32 (Fin 16777217) = Fin 16777216"
  by (simp add: float_cast_def round_to_def bitlen_16777217 Let_def)

lemma float_cast_minus_8: "float_cast Float64 Float32 (Fin (- 8)) = Fin (- 8)"
  by (simp add: float_cast_def round_to_def bitlen_8 Let_def)

lemma double_bias_converted:
  "bias (hd (hidden_layers (copy_Network float_cast mnist_model double_model)))
     = Tensor [2] Float32 [Fin 16777216, Fin (- 8)]"
  by (simp add: copy_Network_def copy_Linear_def tensor_copy_def mnist_model_def double_model_def
      Linear_new_def float_cast_16777217 float_cast_minus_8)

lemma mnist_load_copy:
  assumes "shapes_match 784 10 [2] m"
  shows "load_checkpoint zeros cast ''checkpoint.pth'' (snd (save 0 (world_of m))) =
     (Inr 1, (snd (save 0 (world_of m)))\<lparr>heap := [m, copy_Network cast mnist_model m]\<rparr>)"
proof -
  have a: "0 < length (heap (world_of m))" by (simp add: world_of_def)
  have b: "shapes_match 784 10 [2] (heap (world_of m) ! 0)"
    using assms by (simp add: world_of_def)
  have c: "[2::nat] \<noteq> []" by simp
  from save_load_copy [OF a b c Network_init_mnist, of cast]
  show ?thesis by (simp add: world_of_def)
qed

lemma shapes_match_nonfinite_double: "shapes_match 784 10 [2] nonfinite_double_model"
  by (simp add: shapes_match_def nonfinite_double_model_def)

lemma nonfinite_double_bias_converted:
  "bias (hd (hidden_layers (copy_Network float_cast mnist_model nonfinite_double_model)))
     = Tensor [2] Float32 [NaN, NInf]"
  by (simp add: copy_Network_def copy_Linear_def tensor_copy_def mnist_model_def
      nonfinite_double_model_def Linear_new_def float_cast_def)

lemma nonfinite_small_load_fails:
  "fst (load_checkpoint zeros cast ''checkpoint.pth''
          (snd (save 0 (world_of nonfinite_small_model)))) =
     Inl (RuntimeError [SizeMismatch ''hidden_layers.0.weight'' [2, 3] [2, 784],
                        SizeMismatch ''output.weight'' [2, 2] [10, 2],
                        SizeMismatch ''output.bias'' [2] [10]])"
proof -
  have n: "Network_init zeros 784 10 (map out_features (hidden_layers nonfinite_small_model))
      = Inr mnist_model"
    by (simp add: Network_init_def nonfinite_small_model_def mnist_model_def)
  have f: "files (snd (save 0 (world_of nonfinite_small_model))) ''checkpoint.pth''
      = Some (checkpoint nonfinite_small_model)"
    by (simp add: save_world world_of_def)
  have ne: "hidden_layers nonfinite_small_model \<noteq> []" by (simp add: nonfinite_small_model_def)
  have "snd (load_state_dict cast mnist_model (entries (state_dict nonfinite_small_model)) True) =
     Inl (RuntimeError [SizeMismatch ''hidden_layers.0.weight'' [2, 3] [2, 784],
                        SizeMismatch ''output.weight'' [2, 2] [10, 2],
                        SizeMismatch ''output.bias'' [2] [10]])"
    by (simp add: load_state_dict_def missing_keys_def unexpected_keys_def size_errors_def
        load_hidden_1 load_Linear_def load_param_def nonfinite_small_model_def mnist_model_def
        state_dict_1 linear_items_def entries_def hidden_prefix_0 Linear_new_def unexpected_def
        startswith_def)
  with load_checkpoint_stored [OF f ne n, where cast = cast] show ?thesis
    by (simp split: prod.splits sum.splits)
qed

lemma small_mismatched:
  "list_ex (missing_or_mismatched (entries (state_dict small_model))) (state_dict mnist_model)"
  by (simp add: missing_or_mismatched_def small_model_def mnist_model_def state_dict_1
      linear_items_def entries_def hidden_prefix_0 Linear_new_def)

section \<open>The claims\<close>

text \<open>
  C1 (as amended): for every model whose input size is 784 and whose output size is 10, with
  at least one hidden layer, parameters of the shapes its layers imply and of the default type
  \<^verbatim>\<open>float32\<close>, loading the checkpoint that save wrote succeeds and yields a new instance equal
  to the original: the same \<open>in_features\<close> and \<open>out_features\<close> of every layer, the same weights
  and biases.
\<close>

theorem C1_roundtrip:
  assumes "model < length (heap s)" "shapes_match 784 10 hs (heap s ! model)" "hs \<noteq> []"
    and "default_dtype (heap s ! model)"
  shows "fst (load_checkpoint init cast ''checkpoint.pth'' (snd (save model s))) = Inr (length (heap s)) \<and>
         heap (snd (load_checkpoint init cast ''checkpoint.pth'' (snd (save model s))))
           = heap s @ [heap s ! model]"
  using save_load_roundtrip [OF assms, of init cast] by simp

text \<open>
  The amended C1 at a \<^verbatim>\<open>Network(784, 10, [2])\<close> with trained parameters: the instance that
  the constructor builds is another model, and the load puts the saved biases into it.
\<close>

theorem C1_roundtrip_witness:
  "0 < length (heap (world_of trained_model)) \<and>
   shapes_match 784 10 [2] (heap (world_of trained_model) ! 0) \<and> [2::nat] \<noteq> [] \<and>
   default_dtype (heap (world_of trained_model) ! 0) \<and>
   Network_init zeros 784 10 [2] = Inr mnist_model \<and> trained_model \<noteq> mnist_model \<and>
   fst (load_checkpoint zeros float_cast ''checkpoint.pth'' (snd (save 0 (world_of trained_model))))
     = Inr 1 \<and>
   heap (snd (load_checkpoint zeros float_cast ''checkpoint.pth'' (snd (save 0 (world_of trained_model)))))
     = [trained_model, trained_model] \<and>
   bias (hd (hidden_layers (heap (snd (load_checkpoint zeros float_cast ''checkpoint.pth''
                                        (snd (save 0 (world_of trained_model))))) ! 1)))
     = Tensor [2] Float32 [Fin 7, Fin (- 8)]"
proof -
  have a: "0 < length (heap (world_of trained_model))" by (simp add: world_of_def)
  have b: "shapes_match 784 10 [2] (heap (world_of trained_model) ! 0)"
    by (simp add: world_of_def shapes_match_trained)
  have c: "[2::nat] \<noteq> []" by simp
  have d: "default_dtype (heap (world_of trained_model) ! 0)"
    by (simp add: world_of_def default_dtype_trained)
  have e: "bias (hd (hidden_layers trained_model)) = Tensor [2] Float32 [Fin 7, Fin (- 8)]"
    by (simp add: trained_model_def)
  from C1_roundtrip [OF a b c d, of zeros float_cast] a b c d e Network_init_mnist trained_not_fresh
  show ?thesis by (simp add: world_of_def)
qed

text \<open>
  C1 as stated fails. Cell 18 writes the literals 784 and 10 whatever the model is, so the
  checkpoint of \<^verbatim>\<open>Network(3, 2, [2])\<close>, a valid descriptor with matching parameters, is
  rebuilt as \<^verbatim>\<open>Network(784, 10, [2])\<close> and its state dict does not fit. And cell 19 builds
  the new instance with parameters of type \<^verbatim>\<open>float32\<close>, so the parameters of a \<^verbatim>\<open>float64\<close>
  model come back converted: the bias \<open>16777217\<close> is loaded as \<open>16777216\<close>.
\<close>

theorem C1_counterexample:
  "descriptor_valid 3 2 [2] \<and> shapes_match 3 2 [2] small_model \<and>
   fst (load_checkpoint zeros float_cast ''checkpoint.pth'' (snd (save 0 (world_of small_model)))) =
     Inl (RuntimeError [SizeMismatch ''hidden_layers.0.weight'' [2, 3] [2, 784],
                        SizeMismatch ''output.weight'' [2, 2] [10, 2],
                        SizeMismatch ''output.bias'' [2] [10]]) \<and>
   descriptor_valid 784 10 [2] \<and> shapes_match 784 10 [2] double_model \<and>
   bias (hd (hidden_layers double_model)) = Tensor [2] Float64 [Fin 16777217, Fin (- 8)] \<and>
   fst (load_checkpoint zeros float_cast ''checkpoint.pth'' (snd (save 0 (world_of double_model))))
     = Inr 1 \<and>
   bias (hd (hidden_layers (heap (snd (load_checkpoint zeros float_cast ''checkpoint.pth''
                                        (snd (save 0 (world_of double_model))))) ! 1)))
     = Tensor [2] Float32 [Fin 16777216, Fin (- 8)]"
proof -
  have "bias (hd (hidden_layers double_model)) = Tensor [2] Float64 [Fin 16777217, Fin (- 8)]"
    by (simp add: double_model_def)
  with small_load_fails [of float_cast] shapes_match_small shapes_match_double
    mnist_load_copy [OF shapes_match_double, of float_cast] double_bias_converted
  show ?thesis by (simp add: descriptor_valid_def)
qed

text \<open>
  C2 (as amended): loading the state dict of any model of architecture (784, 10, [512, 256, 128])
  into any model of architecture (784, 10, [400, 200, 100]) fails, whatever \<open>strict\<close> is, with
  the \<^verbatim>\<open>RuntimeError\<close> of the library routine \<^verbatim>\<open>load_state_dict\<close>, whose message has a
  \<^verbatim>\<open>size mismatch\<close> line for each of the seven parameters of another shape (the lines cell 17
  prints); it never passes silently.
\<close>

theorem C2_size_mismatch:
  assumes "shapes_match 784 10 [512, 256, 128] m1" "shapes_match 784 10 [400, 200, 100] m2"
  shows "snd (load_state_dict cast m2 (entries (state_dict m1)) strict) =
     Inl (RuntimeError
       [SizeMismatch ''hidden_layers.0.weight'' [512, 784] [400, 784],
        SizeMismatch ''hidden_layers.0.bias'' [512] [400],
        SizeMismatch ''hidden_layers.1.weight'' [256, 512] [200, 400],
        SizeMismatch ''hidden_layers.1.bias'' [256] [200],
        SizeMismatch ''hidden_layers.2.weight'' [128, 256] [100, 200],
        SizeMismatch ''hidden_layers.2.bias'' [128] [100],
        SizeMismatch ''output.weight'' [10, 128] [10, 100]])"
  using assms by (rule load_state_dict_mismatch)

text \<open>The amended C2 at the two models of the notebook, freshly constructed.\<close>

theorem C2_size_mismatch_witness:
  "shapes_match 784 10 [512, 256, 128] model_512 \<and> shapes_match 784 10 [400, 200, 100] model_400 \<and>
   snd (load_state_dict float_cast model_400 (entries (state_dict model_512)) True) =
     Inl (RuntimeError
       [SizeMismatch ''hidden_layers.0.weight'' [512, 784] [400, 784],
        SizeMismatch ''hidden_layers.0.bias'' [512] [400],
        SizeMismatch ''hidden_layers.1.weight'' [256, 512] [200, 400],
        SizeMismatch ''hidden_layers.1.bias'' [256] [200],
        SizeMismatch ''hidden_layers.2.weight'' [128, 256] [100, 200],
        SizeMismatch ''hidden_layers.2.bias'' [128] [100],
        SizeMismatch ''output.weight'' [10, 128] [10, 100]])"
  using C2_size_mismatch [OF shapes_match_512 shapes_match_400, of float_cast True]
    shapes_match_512 shapes_match_400 by simp

text \<open>
  C2 as stated fails: the exception is a \<^verbatim>\<open>RuntimeError\<close>, raised by the library routine at
  the end of its pass; nothing in the notebook checks shapes beforehand, and no exception
  named \<^verbatim>\<open>ShapeMismatchError\<close> exists there.
\<close>

theorem C2_counterexample:
  "class_name (projl (snd (load_state_dict float_cast model_400 (entries (state_dict model_512)) True)))
     = ''RuntimeError'' \<and>
   class_name (projl (snd (load_state_dict float_cast model_400 (entries (state_dict model_512)) True)))
     \<noteq> ''ShapeMismatchError''"
  using load_state_dict_mismatch [OF shapes_match_512 shapes_match_400, of float_cast True] by simp

text \<open>
  C3 (as amended): \<^verbatim>\<open>load_checkpoint\<close> takes the file path only and always loads with the
  default \<^verbatim>\<open>strict=True\<close>: whenever the stored state dict misses a key of the model or has a
  key that \<^verbatim>\<open>load_state_dict\<close> reports as unexpected, the load fails with a
  \<^verbatim>\<open>RuntimeError\<close> whose message lists those keys. No option makes an extra key a warning.
\<close>

theorem C3_always_strict:
  assumes "files s path = Some (PyDict kvs)"
    and "map_of kvs ''input_size'' = Some a" "map_of kvs ''output_size'' = Some b"
    and "map_of kvs ''hidden_layers'' = Some c" "Network_new init a b c = Inr net"
    and "map_of kvs ''state_dict'' = Some (PyDict sd)"
    and "missing_keys cast net sd \<noteq> [] \<or> unexpected_keys cast net sd \<noteq> []"
  shows "fst (load_checkpoint init cast path s) =
     Inl (RuntimeError
       ((if missing_keys cast net sd \<noteq> [] then [MissingKeys (missing_keys cast net sd)] else [])
        @ (if unexpected_keys cast net sd \<noteq> [] then [UnexpectedKeys (unexpected_keys cast net sd)] else [])
        @ size_errors cast net sd))"
  using load_checkpoint_fst [OF assms(1-6)] assms(7) by auto

text \<open>The amended C3 at that checkpoint.\<close>

theorem C3_always_strict_witness:
  "files (stored extra_checkpoint) ''checkpoint.pth'' = Some extra_checkpoint \<and>
   Network_new zeros (PyInt 784) (PyInt 10) (PyList [2]) = Inr mnist_model \<and>
   unexpected_keys float_cast mnist_model extra_state_dict = [''extra.weight''] \<and>
   fst (load_checkpoint zeros float_cast ''checkpoint.pth'' (stored extra_checkpoint)) =
     Inl (RuntimeError [UnexpectedKeys (unexpected_keys float_cast mnist_model extra_state_dict)])"
proof -
  let ?kvs = "mnist_fields @ [(''state_dict'', PyDict extra_state_dict)]"
  have f: "files (stored extra_checkpoint) ''checkpoint.pth'' = Some (PyDict ?kvs)"
    by (simp add: stored_def extra_checkpoint_def)
  have k: "map_of ?kvs ''input_size'' = Some (PyInt 784)" "map_of ?kvs ''output_size'' = Some (PyInt 10)"
    "map_of ?kvs ''hidden_layers'' = Some (PyList [2])"
    "map_of ?kvs ''state_dict'' = Some (PyDict extra_state_dict)"
    by (simp_all add: mnist_fields_def)
  have u: "missing_keys float_cast mnist_model extra_state_dict \<noteq> [] \<or>
      unexpected_keys float_cast mnist_model extra_state_dict \<noteq> []"
    by (simp add: extra_keys)
  from C3_always_strict [OF f k(1) k(2) k(3) Network_new_mnist k(4) u] f
  show ?thesis by (simp add: extra_keys Network_new_mnist extra_checkpoint_def del: Network_new.simps)
qed

text \<open>
  C3 as stated fails: a checkpoint whose state dict has the extra key \<^verbatim>\<open>extra.weight\<close>
  cannot be loaded; \<^verbatim>\<open>load_checkpoint\<close> has no argument that would ignore it.
\<close>

theorem C3_counterexample:
  "fst (load_checkpoint zeros float_cast ''checkpoint.pth'' (stored extra_checkpoint)) =
     Inl (RuntimeError [UnexpectedKeys [''extra.weight'']])"
  unfolding extra_checkpoint_def load_mnist_fields by (simp add: extra_keys)

text \<open>
  C4 (as amended): for every key of the model that the descriptor of the checkpoint builds,
  removing that key from the stored state dict makes \<^verbatim>\<open>load_checkpoint\<close> fail with a
  \<^verbatim>\<open>RuntimeError\<close> whose first message line lists the missing keys, the removed key among
  them.
\<close>

theorem C4_missing_key:
  assumes "files s path = Some (PyDict kvs)"
    and "map_of kvs ''input_size'' = Some a" "map_of kvs ''output_size'' = Some b"
    and "map_of kvs ''hidden_layers'' = Some c" "Network_new init a b c = Inr net"
    and "map_of kvs ''state_dict'' = Some (PyDict (remove_key key sd))"
    and "key \<in> set (map fst (state_dict net))"
  shows "key \<in> set (missing_keys cast net (remove_key key sd)) \<and>
     fst (load_checkpoint init cast path s) =
       Inl (RuntimeError
         (MissingKeys (missing_keys cast net (remove_key key sd))
          # (if unexpected_keys cast net (remove_key key sd) \<noteq> []
             then [UnexpectedKeys (unexpected_keys cast net (remove_key key sd))] else [])
          @ size_errors cast net (remove_key key sd)))"
proof -
  from missing_keys_member [OF assms(7), of "remove_key key sd" cast]
  have m: "key \<in> set (missing_keys cast net (remove_key key sd))" by simp
  then have "missing_keys cast net (remove_key key sd) \<noteq> []" by auto
  with load_checkpoint_fst [OF assms(1-6)] m show ?thesis by simp
qed

text \<open>The amended C4 at the checkpoint without \<^verbatim>\<open>output.bias\<close>.\<close>

theorem C4_missing_key_witness:
  "files (stored missing_checkpoint) ''checkpoint.pth'' = Some missing_checkpoint \<and>
   ''output.bias'' \<in> set (map fst (state_dict mnist_model)) \<and>
   ''output.bias'' \<in> set (missing_keys float_cast mnist_model missing_state_dict) \<and>
   fst (load_checkpoint zeros float_cast ''checkpoint.pth'' (stored missing_checkpoint)) =
     Inl (RuntimeError [MissingKeys (missing_keys float_cast mnist_model missing_state_dict)])"
proof -
  let ?kvs = "mnist_fields @ [(''state_dict'', PyDict missing_state_dict)]"
  have f: "files (stored missing_checkpoint) ''checkpoint.pth'' = Some (PyDict ?kvs)"
    by (simp add: stored_def missing_checkpoint_def)
  have k: "map_of ?kvs ''input_size'' = Some (PyInt 784)" "map_of ?kvs ''output_size'' = Some (PyInt 10)"
    "map_of ?kvs ''hidden_layers'' = Some (PyList [2])"
    "map_of ?kvs ''state_dict''
       = Some (PyDict (remove_key ''output.bias'' (entries (state_dict mnist_model))))"
    by (simp_all add: mnist_fields_def missing_state_dict_def)
  have r: "''output.bias'' \<in> set (map fst (state_dict mnist_model))"
    unfolding state_dict_keys by simp
  from C4_missing_key [OF f k(1) k(2) k(3) Network_new_mnist k(4) r] f r
  show ?thesis
    by (simp add: missing_keys_eval missing_checkpoint_def missing_state_dict_def [symmetric])
qed

text \<open>
  C4 as stated fails: the exception raised for a missing key is a \<^verbatim>\<open>RuntimeError\<close>; no
  exception named \<^verbatim>\<open>MissingKeyError\<close> exists in the notebook.
\<close>

theorem C4_counterexample:
  "fst (load_checkpoint zeros float_cast ''checkpoint.pth'' (stored missing_checkpoint)) =
     Inl (RuntimeError [MissingKeys [''output.bias'']]) \<and>
   class_name (projl (fst (load_checkpoint zeros float_cast ''checkpoint.pth'' (stored missing_checkpoint))))
     \<noteq> ''MissingKeyError''"
  unfolding missing_checkpoint_def load_mnist_fields by (simp add: missing_keys_eval)

text \<open>
  C5 (as amended): a load that meets a size mismatch or a missing key fails with the
  \<^verbatim>\<open>RuntimeError\<close> of \<^verbatim>\<open>load_state_dict\<close>, whose message lists the missing keys and the
  size mismatches. That failure, like every other, is fatal to the whole call: no model is
  returned, and the files and every model instance that existed before are as they were (the
  instance that was being filled is a new one, which the caller never receives). A load that
  succeeds returns a new instance of the architecture the descriptor gives, every parameter of
  which has the type \<^verbatim>\<open>float32\<close> and the shape and the elements of the tensor stored under its
  key (converted, where the stored tensor has another type): a model loads fully and
  consistently or not at all.
\<close>

theorem C5_all_or_nothing:
  assumes "load_checkpoint init cast path s = (r, s')"
  shows "files s' = files s \<and> take (length (heap s)) (heap s') = heap s \<and>
     (\<forall>kvs a b c sd net.
        files s path = Some (PyDict kvs) \<and>
        map_of kvs ''input_size'' = Some a \<and> map_of kvs ''output_size'' = Some b \<and>
        map_of kvs ''hidden_layers'' = Some c \<and> map_of kvs ''state_dict'' = Some (PyDict sd) \<and>
        Network_new init a b c = Inr net \<and>
        list_ex (missing_or_mismatched sd) (state_dict net) \<longrightarrow>
          (missing_keys cast net sd \<noteq> [] \<or> size_errors cast net sd \<noteq> []) \<and>
          r = Inl (RuntimeError
                ((if missing_keys cast net sd \<noteq> [] then [MissingKeys (missing_keys cast net sd)]
                  else [])
                 @ (if unexpected_keys cast net sd \<noteq> []
                    then [UnexpectedKeys (unexpected_keys cast net sd)] else [])
                 @ size_errors cast net sd))) \<and>
     (\<forall>addr. r = Inr addr \<longrightarrow>
        addr = length (heap s) \<and> length (heap s') = Suc addr \<and>
        (\<exists>kvs a b hs sd.
           files s path = Some (PyDict kvs) \<and>
           map_of kvs ''input_size'' = Some (PyInt a) \<and>
           map_of kvs ''output_size'' = Some (PyInt b) \<and>
           map_of kvs ''hidden_layers'' = Some (PyList hs) \<and>
           map_of kvs ''state_dict'' = Some (PyDict sd) \<and>
           shapes_match (nat a) (nat b) (map nat hs) (heap s' ! addr) \<and>
           default_dtype (heap s' ! addr) \<and>
           list_all (loaded_from cast sd) (state_dict (heap s' ! addr))))"
proof (intro conjI allI impI)
  from load_checkpoint_frame [of init cast path s] assms
  show "files s' = files s" and "take (length (heap s)) (heap s') = heap s" by simp_all
next
  fix kvs a b c sd net
  assume h: "files s path = Some (PyDict kvs) \<and>
        map_of kvs ''input_size'' = Some a \<and> map_of kvs ''output_size'' = Some b \<and>
        map_of kvs ''hidden_layers'' = Some c \<and> map_of kvs ''state_dict'' = Some (PyDict sd) \<and>
        Network_new init a b c = Inr net \<and>
        list_ex (missing_or_mismatched sd) (state_dict net)"
  then have f: "files s path = Some (PyDict kvs)"
    and k: "map_of kvs ''input_size'' = Some a" "map_of kvs ''output_size'' = Some b"
      "map_of kvs ''hidden_layers'' = Some c" "map_of kvs ''state_dict'' = Some (PyDict sd)"
    and n: "Network_new init a b c = Inr net"
    and m: "list_ex (missing_or_mismatched sd) (state_dict net)"
    by simp_all
  from missing_or_mismatched_fails [OF m, of cast]
  show e: "missing_keys cast net sd \<noteq> [] \<or> size_errors cast net sd \<noteq> []" .
  from load_checkpoint_outcome [OF assms f k n] e
  show "r = Inl (RuntimeError
                ((if missing_keys cast net sd \<noteq> [] then [MissingKeys (missing_keys cast net sd)]
                  else [])
                 @ (if unexpected_keys cast net sd \<noteq> []
                    then [UnexpectedKeys (unexpected_keys cast net sd)] else [])
                 @ size_errors cast net sd))"
    by auto
next
  fix addr
  assume "r = Inr addr"
  with assms have l: "load_checkpoint init cast path s = (Inr addr, s')" by simp
  from load_checkpoint_success [OF l]
  show "addr = length (heap s)" and "length (heap s') = Suc addr"
    and "\<exists>kvs a b hs sd.
           files s path = Some (PyDict kvs) \<and>
           map_of kvs ''input_size'' = Some (PyInt a) \<and>
           map_of kvs ''output_size'' = Some (PyInt b) \<and>
           map_of kvs ''hidden_layers'' = Some (PyList hs) \<and>
           map_of kvs ''state_dict'' = Some (PyDict sd) \<and>
           shapes_match (nat a) (nat b) (map nat hs) (heap s' ! addr) \<and>
           default_dtype (heap s' ! addr) \<and>
           list_all (loaded_from cast sd) (state_dict (heap s' ! addr))"
    by blast+
qed

text \<open>
  The amended C5 at a load that fails, the first weight of the stored state dict being of
  another shape than that of the model, and at a load that succeeds, where every parameter of
  the new instance is loaded from the state dict of the trained model.
\<close>

theorem C5_all_or_nothing_witness:
  "list_ex (missing_or_mismatched (entries (state_dict small_model))) (state_dict mnist_model) \<and>
   fst (load_checkpoint zeros float_cast ''checkpoint.pth'' (snd (save 0 (world_of small_model)))) =
     Inl (RuntimeError [SizeMismatch ''hidden_layers.0.weight'' [2, 3] [2, 784],
                        SizeMismatch ''output.weight'' [2, 2] [10, 2],
                        SizeMismatch ''output.bias'' [2] [10]]) \<and>
   files (snd (load_checkpoint zeros float_cast ''checkpoint.pth'' (snd (save 0 (world_of small_model)))))
     = files (snd (save 0 (world_of small_model))) \<and>
   take 1 (heap (snd (load_checkpoint zeros float_cast ''checkpoint.pth''
                        (snd (save 0 (world_of small_model))))))
     = [small_model] \<and>
   fst (load_checkpoint zeros float_cast ''checkpoint.pth'' (snd (save 0 (world_of trained_model))))
     = Inr 1 \<and>
   list_all (loaded_from float_cast (entries (state_dict trained_model)))
     (state_dict (heap (snd (load_checkpoint zeros float_cast ''checkpoint.pth''
                               (snd (save 0 (world_of trained_model))))) ! 1))"
proof -
  let ?s = "snd (save 0 (world_of small_model))"
  let ?l = "load_checkpoint zeros float_cast ''checkpoint.pth'' ?s"
  let ?t = "snd (save 0 (world_of trained_model))"
  let ?u = "load_checkpoint zeros float_cast ''checkpoint.pth'' ?t"
  have hs: "heap ?s = [small_model]" by (simp add: save_world world_of_def)
  have fail: "files (snd ?l) = files ?s \<and> take 1 (heap (snd ?l)) = [small_model]"
    using C5_all_or_nothing [of zeros float_cast "''checkpoint.pth''" ?s "fst ?l" "snd ?l"] hs
    by simp
  have ft: "files ?t ''checkpoint.pth'' = Some (checkpoint trained_model)"
    and ht: "heap ?t = [trained_model]"
    by (simp_all add: save_world world_of_def)
  have u: "fst ?u = Inr 1"
    using mnist_load_copy [OF shapes_match_trained, of float_cast] by simp
  then have "?u = (Inr 1, snd ?u)" by (metis prod.collapse)
  from C5_all_or_nothing [OF this]
  obtain kvs sd where "files ?t ''checkpoint.pth'' = Some (PyDict kvs)"
    and sd: "map_of kvs ''state_dict'' = Some (PyDict sd)"
    and ld: "list_all (loaded_from float_cast sd) (state_dict (heap (snd ?u) ! 1))"
    by blast
  with ft have "checkpoint trained_model = PyDict kvs" by simp
  with checkpoint_fields(4) [of trained_model] sd
  have "sd = entries (state_dict trained_model)" by (simp split: option.splits)
  with ld fail u small_load_fails [of float_cast] small_mismatched show ?thesis by simp
qed

text \<open>
  C5 as stated fails: it speaks of a load that fails with \<^verbatim>\<open>ShapeMismatchError\<close> or with
  \<^verbatim>\<open>MissingKeyError\<close>, and no load does. A checkpoint whose tensors have other shapes than
  the model, and one whose state dict lacks \<^verbatim>\<open>output.bias\<close>, both fail with a
  \<^verbatim>\<open>RuntimeError\<close>.
\<close>

theorem C5_counterexample:
  "projl (fst (load_checkpoint zeros float_cast ''checkpoint.pth'' (snd (save 0 (world_of small_model)))))
     = RuntimeError [SizeMismatch ''hidden_layers.0.weight'' [2, 3] [2, 784],
                     SizeMismatch ''output.weight'' [2, 2] [10, 2],
                     SizeMismatch ''output.bias'' [2] [10]] \<and>
   class_name (projl (fst (load_checkpoint zeros float_cast ''checkpoint.pth''
                             (snd (save 0 (world_of small_model))))))
     \<noteq> ''ShapeMismatchError'' \<and>
   projl (fst (load_checkpoint zeros float_cast ''checkpoint.pth'' (stored missing_checkpoint)))
     = RuntimeError [MissingKeys [''output.bias'']] \<and>
   class_name (projl (fst (load_checkpoint zeros float_cast ''checkpoint.pth''
                             (stored missing_checkpoint))))
     \<noteq> ''MissingKeyError''"
  using small_load_fails [of float_cast]
  unfolding missing_checkpoint_def load_mnist_fields by (simp add: missing_keys_eval)

text \<open>
  C6 (as amended): serialisation neither rejects nor alters an element: the file that save
  wrote reads back as the checkpoint of the model, the state dict in it holding every tensor
  as it was, whatever its elements are. For every model whose input size is 784 and whose
  output size is 10, with at least one hidden layer and parameters of the shapes its layers
  imply and of type \<^verbatim>\<open>float32\<close>, save then load succeeds and the state dict of the loaded model
  is that of the saved one: every entry comes back as it was, the NaN and the infinite ones
  too. (The elements are of any type here, so this holds of every bit pattern.)
\<close>

theorem C6_nonfinite_roundtrip:
  assumes "model < length (heap s)"
  shows "fst (torch_load ''checkpoint.pth'' (snd (save model s))) = Inr (checkpoint (heap s ! model)) \<and>
     subscript (checkpoint (heap s ! model)) ''state_dict''
       = Inr (PyDict (entries (state_dict (heap s ! model)))) \<and>
     (shapes_match 784 10 hs (heap s ! model) \<and> hs \<noteq> [] \<and> default_dtype (heap s ! model) \<longrightarrow>
        fst (load_checkpoint init cast ''checkpoint.pth'' (snd (save model s)))
          = Inr (length (heap s)) \<and>
        state_dict (heap (snd (load_checkpoint init cast ''checkpoint.pth'' (snd (save model s))))
                      ! length (heap s))
          = state_dict (heap s ! model))"
proof -
  have "fst (torch_load ''checkpoint.pth'' (snd (save model s))) = Inr (checkpoint (heap s ! model))"
    using assms by (simp add: save_world torch_load_def)
  moreover have "load_checkpoint init cast ''checkpoint.pth'' (snd (save model s)) =
      (Inr (length (heap s)), (snd (save model s))\<lparr>heap := heap s @ [heap s ! model]\<rparr>)"
    if "shapes_match 784 10 hs (heap s ! model)" "hs \<noteq> []" "default_dtype (heap s ! model)"
    using save_load_roundtrip [OF assms that] .
  ultimately show ?thesis by (auto simp: checkpoint_fields)
qed

text \<open>
  The amended C6 at a \<^verbatim>\<open>Network(784, 10, [2])\<close> whose biases hold NaN, \<open>+inf\<close> and \<open>-inf\<close>:
  the loaded model has them where the saved one has them.
\<close>

theorem C6_nonfinite_roundtrip_witness:
  "0 < length (heap (world_of nonfinite_model)) \<and>
   shapes_match 784 10 [2] (heap (world_of nonfinite_model) ! 0) \<and>
   default_dtype (heap (world_of nonfinite_model) ! 0) \<and>
   fst (torch_load ''checkpoint.pth'' (snd (save 0 (world_of nonfinite_model))))
     = Inr (checkpoint nonfinite_model) \<and>
   fst (load_checkpoint zeros float_cast ''checkpoint.pth'' (snd (save 0 (world_of nonfinite_model))))
     = Inr 1 \<and>
   state_dict (heap (snd (load_checkpoint zeros float_cast ''checkpoint.pth''
                            (snd (save 0 (world_of nonfinite_model))))) ! 1)
     = state_dict nonfinite_model \<and>
   map_of (state_dict nonfinite_model) ''hidden_layers.0.bias'' = Some (Tensor [2] Float32 [NaN, PInf]) \<and>
   map_of (state_dict nonfinite_model) ''output.bias''
     = Some (Tensor [10] Float32 [NInf, NaN, PInf, Fin 4, Fin 5, Fin 6, Fin 7, Fin 8, Fin 9, Fin 10])"
proof -
  have a: "0 < length (heap (world_of nonfinite_model))" by (simp add: world_of_def)
  have b: "shapes_match 784 10 [2] (heap (world_of nonfinite_model) ! 0)"
    "default_dtype (heap (world_of nonfinite_model) ! 0)"
    by (simp_all add: world_of_def shapes_match_nonfinite default_dtype_nonfinite)
  have c: "map_of (state_dict nonfinite_model) ''hidden_layers.0.bias''
      = Some (Tensor [2] Float32 [NaN, PInf])"
    "map_of (state_dict nonfinite_model) ''output.bias''
      = Some (Tensor [10] Float32 [NInf, NaN, PInf, Fin 4, Fin 5, Fin 6, Fin 7, Fin 8, Fin 9, Fin 10])"
    by (simp_all add: nonfinite_model_def state_dict_1 linear_items_def hidden_prefix_0)
  from C6_nonfinite_roundtrip [OF a, of "[2]" zeros float_cast] a b c
  show ?thesis by (simp add: world_of_def)
qed

text \<open>
  C6 as stated fails. The biases and weights of a \<^verbatim>\<open>Network(3, 2, [2])\<close> that hold NaN,
  \<open>+inf\<close> and \<open>-inf\<close> are not reproduced: the load of its checkpoint raises, for the literals
  784 and 10 of cell 18. And the NaN and \<open>-inf\<close> of a \<^verbatim>\<open>float64\<close> model of input size 784 and
  output size 10 come back as elements of a \<^verbatim>\<open>float32\<close> tensor, not as the 64 bits that were
  saved.
\<close>

theorem C6_counterexample:
  "shapes_match 3 2 [2] nonfinite_small_model \<and>
   bias (hd (hidden_layers nonfinite_small_model)) = Tensor [2] Float32 [NaN, PInf] \<and>
   fst (load_checkpoint zeros float_cast ''checkpoint.pth''
          (snd (save 0 (world_of nonfinite_small_model)))) =
     Inl (RuntimeError [SizeMismatch ''hidden_layers.0.weight'' [2, 3] [2, 784],
                        SizeMismatch ''output.weight'' [2, 2] [10, 2],
                        SizeMismatch ''output.bias'' [2] [10]]) \<and>
   shapes_match 784 10 [2] nonfinite_double_model \<and>
   bias (hd (hidden_layers nonfinite_double_model)) = Tensor [2] Float64 [NaN, NInf] \<and>
   fst (load_checkpoint zeros float_cast ''checkpoint.pth''
          (snd (save 0 (world_of nonfinite_double_model)))) = Inr 1 \<and>
   bias (hd (hidden_layers (heap (snd (load_checkpoint zeros float_cast ''checkpoint.pth''
                                        (snd (save 0 (world_of nonfinite_double_model))))) ! 1)))
     = Tensor [2] Float32 [NaN, NInf]"
proof -
  have "bias (hd (hidden_layers nonfinite_small_model)) = Tensor [2] Float32 [NaN, PInf]"
    "bias (hd (hidden_layers nonfinite_double_model)) = Tensor [2] Float64 [NaN, NInf]"
    by (simp_all add: nonfinite_small_model_def nonfinite_double_model_def)
  with nonfinite_small_load_fails [of float_cast] shapes_match_nonfinite_small
    shapes_match_nonfinite_double
    mnist_load_copy [OF shapes_match_nonfinite_double, of float_cast]
    nonfinite_double_bias_converted
  show ?thesis by simp
qed

text \<open>
  C7: save leaves every model instance as it was, the saved one included (its architecture
  fields and every parameter tensor); it only writes the file \<^verbatim>\<open>checkpoint.pth\<close>, which
  then holds the checkpoint of the model.
\<close>

theorem C7_save_frame:
  "heap (snd (save model s)) = heap s \<and>
   files (snd (save model s)) =
     (if model < length (heap s)
      then (files s)(''checkpoint.pth'' \<mapsto> checkpoint (heap s ! model)) else files s)"
  by (simp add: save_def torch_save_def)

text \<open>C7 at a concrete model.\<close>

theorem C7_save_frame_witness:
  "heap (snd (save 0 (world_of small_model))) = [small_model] \<and>
   files (snd (save 0 (world_of small_model))) ''checkpoint.pth'' = Some (checkpoint small_model)"
  using C7_save_frame [of 0 "world_of small_model"] by (simp add: world_of_def)

text \<open>
  C8 (as amended): saving twice writes the same checkpoint: for every model, the second save
  leaves the world as the first left it. Save and load keep no state between calls: for a
  model of input size 784 and output size 10 with matching parameters, a load after each
  save, whatever was saved and loaded before, succeeds, and the two models so reconstructed
  are equal, each parameter holding the stored tensor of its key, converted to \<^verbatim>\<open>float32\<close>;
  they are equal to the original when its parameters are of type \<^verbatim>\<open>float32\<close>.
\<close>

theorem C8_save_twice:
  "snd (save model (snd (save model s))) = snd (save model s) \<and>
   (model < length (heap s) \<and> shapes_match 784 10 hs (heap s ! model) \<and> hs \<noteq> [] \<longrightarrow>
     (let r1 = load_checkpoint init cast ''checkpoint.pth'' (snd (save model s));
          r2 = load_checkpoint init cast ''checkpoint.pth'' (snd (save model (snd r1)))
      in fst r1 = Inr (length (heap s)) \<and> fst r2 = Inr (Suc (length (heap s))) \<and>
         files (snd (save model (snd r1))) = files (snd (save model s)) \<and>
         (\<exists>loaded. heap (snd r1) = heap s @ [loaded] \<and>
            heap (snd r2) = heap s @ [loaded, loaded] \<and>
            list_all (loaded_from cast (entries (state_dict (heap s ! model)))) (state_dict loaded) \<and>
            (default_dtype (heap s ! model) \<longrightarrow> loaded = heap s ! model))))"
proof (intro conjI impI)
  show "snd (save model (snd (save model s))) = snd (save model s)" by (rule save_idem)
next
  assume h: "model < length (heap s) \<and> shapes_match 784 10 hs (heap s ! model) \<and> hs \<noteq> []"
  then have a: "model < length (heap s)" and sm: "shapes_match 784 10 hs (heap s ! model)"
    and ne: "hs \<noteq> []" by simp_all
  from ne obtain net where net: "Network_init init 784 10 hs = Inr (net :: 'a Network)"
    by (auto simp: Network_init_def)
  let ?m = "heap s ! model"
  let ?c = "copy_Network cast net ?m"
  let ?s1 = "snd (save model s)"
  let ?r1 = "load_checkpoint init cast ''checkpoint.pth'' ?s1"
  let ?t = "?s1\<lparr>heap := heap s @ [?c]\<rparr>"
  have r1: "?r1 = (Inr (length (heap s)), ?t)"
    by (rule save_load_copy [OF a sm ne net])
  have t: "model < length (heap ?t)" "heap ?t ! model = ?m"
    using a by (simp_all add: nth_append)
  with sm have smt: "shapes_match 784 10 hs (heap ?t ! model)" by simp
  have r2: "load_checkpoint init cast ''checkpoint.pth'' (snd (save model ?t)) =
      (Inr (length (heap ?t)),
       (snd (save model ?t))\<lparr>heap := heap ?t @ [copy_Network cast net (heap ?t ! model)]\<rparr>)"
    by (rule save_load_copy [OF t(1) smt ne net])
  have f: "files (snd (save model ?t)) = files ?s1"
    using a t by (simp add: save_world)
  have ld: "list_all (loaded_from cast (entries (state_dict ?m))) (state_dict ?c)"
    by (rule save_load_loaded [OF a sm ne net])
  have eq: "?c = ?m" if "default_dtype ?m"
    by (rule copy_Network_same [OF sm ne net that])
  show "let r1 = load_checkpoint init cast ''checkpoint.pth'' (snd (save model s));
          r2 = load_checkpoint init cast ''checkpoint.pth'' (snd (save model (snd r1)))
      in fst r1 = Inr (length (heap s)) \<and> fst r2 = Inr (Suc (length (heap s))) \<and>
         files (snd (save model (snd r1))) = files (snd (save model s)) \<and>
         (\<exists>loaded. heap (snd r1) = heap s @ [loaded] \<and>
            heap (snd r2) = heap s @ [loaded, loaded] \<and>
            list_all (loaded_from cast (entries (state_dict (heap s ! model)))) (state_dict loaded) \<and>
            (default_dtype (heap s ! model) \<longrightarrow> loaded = heap s ! model))"
    unfolding Let_def r1 snd_conv fst_conv r2
    using f ld eq t by (auto intro!: exI [of _ ?c])
qed

text \<open>
  The amended C8 at a \<^verbatim>\<open>Network(784, 10, [2])\<close> with trained parameters, which the constructor
  does not build: both loads reconstruct it.
\<close>

theorem C8_save_twice_witness:
  "snd (save 0 (snd (save 0 (world_of trained_model)))) = snd (save 0 (world_of trained_model)) \<and>
   Network_init zeros 784 10 [2] = Inr mnist_model \<and> trained_model \<noteq> mnist_model \<and>
   fst (load_checkpoint zeros float_cast ''checkpoint.pth'' (snd (save 0 (world_of trained_model))))
     = Inr 1 \<and>
   fst (load_checkpoint zeros float_cast ''checkpoint.pth''
          (snd (save 0 (snd (load_checkpoint zeros float_cast ''checkpoint.pth''
                              (snd (save 0 (world_of trained_model)))))))) = Inr 2 \<and>
   heap (snd (load_checkpoint zeros float_cast ''checkpoint.pth''
          (snd (save 0 (snd (load_checkpoint zeros float_cast ''checkpoint.pth''
                              (snd (save 0 (world_of trained_model)))))))))
     = [trained_model, trained_model, trained_model]"
proof -
  have a: "0 < length (heap (world_of trained_model)) \<and>
      shapes_match 784 10 [2] (heap (world_of trained_model) ! 0) \<and> [2::nat] \<noteq> []"
    by (simp add: world_of_def shapes_match_trained)
  have d: "default_dtype (heap (world_of trained_model) ! 0)"
    by (simp add: world_of_def default_dtype_trained)
  from C8_save_twice [of 0 "world_of trained_model" "[2]" zeros float_cast] a d
    Network_init_mnist trained_not_fresh
  show ?thesis by (auto simp: world_of_def Let_def)
qed

text \<open>
  C8 as stated fails: for \<^verbatim>\<open>Network(3, 2, [2])\<close> neither of the two checkpoints reconstructs a
  model; both loads raise.
\<close>

theorem C8_counterexample:
  "shapes_match 3 2 [2] small_model \<and>
   fst (load_checkpoint zeros float_cast ''checkpoint.pth'' (snd (save 0 (world_of small_model)))) =
     Inl (RuntimeError [SizeMismatch ''hidden_layers.0.weight'' [2, 3] [2, 784],
                        SizeMismatch ''output.weight'' [2, 2] [10, 2],
                        SizeMismatch ''output.bias'' [2] [10]]) \<and>
   fst (load_checkpoint zeros float_cast ''checkpoint.pth''
          (snd (save 0 (snd (save 0 (world_of small_model)))))) =
     Inl (RuntimeError [SizeMismatch ''hidden_layers.0.weight'' [2, 3] [2, 784],
                        SizeMismatch ''output.weight'' [2, 2] [10, 2],
                        SizeMismatch ''output.bias'' [2] [10]])"
  using small_load_fails [of float_cast] shapes_match_small by (simp add: save_idem)

text \<open>
  C9 (as amended): the checkpoint that save writes lists the \<open>out_features\<close> of the live hidden
  layers, so the model that load builds has the keys of the state dict: loading an unmodified
  checkpoint never fails with a missing key, and fails only with size mismatches, if at all.
  When the model has input size 784, output size 10 and parameters of the shapes its layers
  imply, the checkpoint satisfies the shape invariant and the load succeeds.
\<close>

theorem C9_saved_checkpoint:
  assumes "model < length (heap s)" "hidden_layers (heap s ! model) \<noteq> []"
    and "Network_init init 784 10 (map out_features (hidden_layers (heap s ! model))) = Inr net"
  shows "missing_keys cast net (entries (state_dict (heap s ! model))) = [] \<and>
     list_all is_size_mismatch (size_errors cast net (entries (state_dict (heap s ! model)))) \<and>
     fst (load_checkpoint init cast ''checkpoint.pth'' (snd (save model s))) =
       (if size_errors cast net (entries (state_dict (heap s ! model))) = [] then Inr (length (heap s))
        else Inl (RuntimeError (size_errors cast net (entries (state_dict (heap s ! model)))))) \<and>
     (shapes_match 784 10 (map out_features (hidden_layers (heap s ! model))) (heap s ! model) \<longrightarrow>
        checkpoint_invariant (checkpoint (heap s ! model)) \<and>
        size_errors cast net (entries (state_dict (heap s ! model))) = [])"
proof -
  let ?m = "heap s ! model"
  let ?sd = "entries (state_dict ?m)"
  from Network_init_length [OF assms(3)]
  have len: "length (hidden_layers net) = length (hidden_layers ?m)" by simp
  have mk: "missing_keys cast net ?sd = []" by (rule missing_keys_saved [OF len])
  have sz: "list_all is_size_mismatch (size_errors cast net ?sd)" by (rule size_errors_saved [OF len])
  have uk: "unexpected_keys cast net ?sd = []" by (rule unexpected_keys_saved) (simp add: len)
  have f: "files (snd (save model s)) ''checkpoint.pth'' = Some (checkpoint ?m)"
    and h: "heap (snd (save model s)) = heap s"
    using assms(1) by (simp_all add: save_world)
  obtain net' r where l: "load_state_dict cast net ?sd True = (net', r)"
    by (cases "load_state_dict cast net ?sd True")
  with load_state_dict_strict [of cast net ?sd] mk uk
  have r: "r = (if size_errors cast net ?sd = [] then Inr ([], [])
                else Inl (RuntimeError (size_errors cast net ?sd)))" by simp
  have res: "fst (load_checkpoint init cast ''checkpoint.pth'' (snd (save model s))) =
       (if size_errors cast net ?sd = [] then Inr (length (heap s))
        else Inl (RuntimeError (size_errors cast net ?sd)))"
    unfolding load_checkpoint_stored [OF f assms(2) assms(3)] l
    by (simp add: r h)
  have "checkpoint_invariant (checkpoint ?m) \<and> size_errors cast net ?sd = []"
    if sm: "shapes_match 784 10 (map out_features (hidden_layers ?m)) ?m"
  proof -
    from assms(2) have ne: "map out_features (hidden_layers ?m) \<noteq> []" by simp
    from load_state_dict_roundtrip [OF sm ne assms(3)] load_state_dict_strict [of cast net ?sd]
    have "size_errors cast net ?sd = []" by (simp split: if_splits)
    with checkpoint_invariant_saved [OF sm ne] show ?thesis by simp
  qed
  with mk sz res show ?thesis by blast
qed

text \<open>The amended C9 at \<^verbatim>\<open>Network(784, 10, [2])\<close>.\<close>

theorem C9_saved_checkpoint_witness:
  "0 < length (heap (world_of mnist_model)) \<and>
   hidden_layers (heap (world_of mnist_model) ! 0) \<noteq> [] \<and>
   Network_init zeros 784 10 (map out_features (hidden_layers (heap (world_of mnist_model) ! 0)))
     = Inr mnist_model \<and>
   shapes_match 784 10 [2] mnist_model \<and>
   missing_keys float_cast mnist_model (entries (state_dict mnist_model)) = [] \<and>
   size_errors float_cast mnist_model (entries (state_dict mnist_model)) = [] \<and>
   checkpoint_invariant (checkpoint mnist_model) \<and>
   fst (load_checkpoint zeros float_cast ''checkpoint.pth'' (snd (save 0 (world_of mnist_model)))) = Inr 1"
proof -
  have a: "0 < length (heap (world_of mnist_model))" by (simp add: world_of_def)
  have b: "hidden_layers (heap (world_of mnist_model) ! 0) \<noteq> []"
    by (simp add: world_of_def mnist_model_def)
  have c: "Network_init zeros 784 10 (map out_features (hidden_layers (heap (world_of mnist_model) ! 0)))
     = Inr mnist_model"
    by (simp add: world_of_def mnist_model_def Network_init_def Linear_new_def)
  have d: "map out_features (hidden_layers mnist_model) = [2]"
    by (simp add: mnist_model_def Linear_new_def)
  from C9_saved_checkpoint [OF a b c, of float_cast] a b c shapes_match_mnist show ?thesis
    by (simp add: world_of_def d)
qed

text \<open>
  C9 as stated fails: the checkpoint of \<^verbatim>\<open>Network(3, 2, [2])\<close> records the input size 784,
  which its first weight, of shape \<open>[2, 3]\<close>, does not match; loading it unmodified fails with
  size mismatches.
\<close>

theorem C9_counterexample:
  "descriptor_valid 3 2 [2] \<and> shapes_match 3 2 [2] small_model \<and>
   \<not> checkpoint_invariant (checkpoint small_model) \<and>
   files (snd (save 0 (world_of small_model))) ''checkpoint.pth'' = Some (checkpoint small_model) \<and>
   fst (load_checkpoint zeros float_cast ''checkpoint.pth'' (snd (save 0 (world_of small_model)))) =
     Inl (RuntimeError [SizeMismatch ''hidden_layers.0.weight'' [2, 3] [2, 784],
                        SizeMismatch ''output.weight'' [2, 2] [10, 2],
                        SizeMismatch ''output.bias'' [2] [10]])"
  using small_load_fails shapes_match_small not_invariant_small
  by (simp add: descriptor_valid_def save_world world_of_def)

text \<open>
  C10 (as amended): \<^verbatim>\<open>load_checkpoint\<close> reads \<^verbatim>\<open>input_size\<close>, \<^verbatim>\<open>output_size\<close> and
  \<^verbatim>\<open>hidden_layers\<close>, in this order, before it constructs the model (\<^verbatim>\<open>state_dict\<close> is read
  after): a dictionary without one of the three makes it fail with the \<^verbatim>\<open>KeyError\<close> of the
  first absent one and the world is unchanged. So a file written as a bare state dict (cell
  14) fails with \<^verbatim>\<open>KeyError: 'input_size'\<close> and no model instance is constructed.
\<close>

theorem C10_descriptor_first:
  "(model < length (heap s) \<longrightarrow>
      load_checkpoint init cast ''checkpoint.pth'' (snd (save_state_dict model s))
        = (Inl (KeyError ''input_size''), snd (save_state_dict model s))) \<and>
   (files t path = Some (PyDict kvs) \<and>
    (map_of kvs ''input_size'' = None \<or> map_of kvs ''output_size'' = None \<or>
     map_of kvs ''hidden_layers'' = None) \<longrightarrow>
      load_checkpoint init cast path t =
        (Inl (KeyError (if map_of kvs ''input_size'' = None then ''input_size''
                        else if map_of kvs ''output_size'' = None then ''output_size''
                        else ''hidden_layers'')), t))"
  by (auto simp: load_checkpoint_def torch_load_def save_state_dict_world pickled_def
      state_dict_no_input_size split: option.splits)

text \<open>The amended C10 at a bare state dict and at a dictionary with \<^verbatim>\<open>input_size\<close> only.\<close>

theorem C10_descriptor_first_witness:
  "0 < length (heap (world_of small_model)) \<and>
   load_checkpoint zeros float_cast ''checkpoint.pth'' (snd (save_state_dict 0 (world_of small_model)))
     = (Inl (KeyError ''input_size''), snd (save_state_dict 0 (world_of small_model))) \<and>
   files (stored partial_checkpoint) ''checkpoint.pth'' = Some partial_checkpoint \<and>
   load_checkpoint zeros float_cast ''checkpoint.pth'' (stored partial_checkpoint)
     = (Inl (KeyError ''output_size''), stored partial_checkpoint)"
  using C10_descriptor_first [of 0 "world_of small_model" zeros float_cast "stored partial_checkpoint"
      "''checkpoint.pth''" "[(''input_size'', PyInt 784)]"]
  by (simp add: world_of_def stored_def partial_checkpoint_def)

text \<open>
  C10 as stated fails in its first half: \<^verbatim>\<open>state_dict\<close> is not read before the model is
  constructed. For a checkpoint with the descriptor and no \<^verbatim>\<open>state_dict\<close>, the load fails with
  \<^verbatim>\<open>KeyError: 'state_dict'\<close> after a model instance has been allocated.
\<close>

theorem C10_counterexample:
  "heap (stored no_state_dict_checkpoint) = [] \<and>
   fst (load_checkpoint zeros float_cast ''checkpoint.pth'' (stored no_state_dict_checkpoint))
     = Inl (KeyError ''state_dict'') \<and>
   heap (snd (load_checkpoint zeros float_cast ''checkpoint.pth'' (stored no_state_dict_checkpoint)))
     = [mnist_model]"
  by (simp add: load_checkpoint_def torch_load_def stored_def no_state_dict_checkpoint_def
      mnist_fields_def Network_new_mnist del: Network_new.simps)

end
